theory Spec2Isabelle
  imports Main "HOL-Library.AList"
begin

section \<open>Strings as the JavaScript source uses them\<close>

text \<open>
  Strings are \<^typ>\<open>string\<close>; the characters the source tests are all ASCII.
  \<open>join\<close> is \<open>Array.prototype.join\<close>, \<open>trim\<close> is \<open>String.prototype.trim\<close> on the
  ASCII white space, \<open>includes_str\<close> is \<open>String.prototype.includes\<close>.
\<close>

definition nl :: string where
  "nl = [CHR 0x0A]"

fun join :: "string \<Rightarrow> string list \<Rightarrow> string" where
  "join sep [] = []"
| "join sep [x] = x"
| "join sep (x # y # ys) = x @ sep @ join sep (y # ys)"

definition isSpace :: "char \<Rightarrow> bool" where
  "isSpace c = (c \<in> set [CHR '' '', CHR 0x09, CHR 0x0A, CHR 0x0B, CHR 0x0C, CHR 0x0D])"

definition trim :: "string \<Rightarrow> string" where
  "trim s = rev (dropWhile isSpace (rev (dropWhile isSpace s)))"

fun startsWith :: "string \<Rightarrow> string \<Rightarrow> bool" where
  "startsWith s [] = True"
| "startsWith [] (p # ps) = False"
| "startsWith (c # cs) (p # ps) = (c = p \<and> startsWith cs ps)"

fun includes_str :: "string \<Rightarrow> string \<Rightarrow> bool" where
  "includes_str [] p = (p = [])"
| "includes_str (c # cs) p = (startsWith (c # cs) p \<or> includes_str cs p)"

fun splitOn :: "char \<Rightarrow> string \<Rightarrow> string list" where
  "splitOn d [] = [[]]"
| "splitOn d (c # cs) =
     (case splitOn d cs of
        [] \<Rightarrow> (if c = d then [[], []] else [[c]])
      | w # ws \<Rightarrow> (if c = d then [] # w # ws else (c # w) # ws))"

section \<open>The document tree handed to the Turndown rules\<close>

text \<open>
  The rules of \<open>setupTurndownRules\<close> (html-to-markdown-parser.js) receive DOM nodes.
  A node is an element with its upper-case \<open>nodeName\<close>, its attributes and its children,
  or a text node.
\<close>

datatype node =
  Element string "(string \<times> string) list" "node list"
| TextNode string

fun nodeName :: "node \<Rightarrow> string" where
  "nodeName (Element n as cs) = n"
| "nodeName (TextNode t) = ''#text''"

fun childNodes :: "node \<Rightarrow> node list" where
  "childNodes (Element n as cs) = cs"
| "childNodes (TextNode t) = []"

text \<open>\<open>getAttribute\<close>: the value of the attribute, \<open>None\<close> for JavaScript's \<open>null\<close>.\<close>

fun getAttribute :: "node \<Rightarrow> string \<Rightarrow> string option" where
  "getAttribute (Element n as cs) a = map_of as a"
| "getAttribute (TextNode t) a = None"

text \<open>\<open>classList\<close>: the white-space separated tokens of the \<open>class\<close> attribute.\<close>

definition classList :: "node \<Rightarrow> string list" where
  "classList n =
     (case getAttribute n ''class'' of
        None \<Rightarrow> []
      | Some v \<Rightarrow> filter (\<lambda>w. w \<noteq> []) (splitOn CHR '' '' v))"

definition classList_contains :: "node \<Rightarrow> string \<Rightarrow> bool" where
  "classList_contains n c = (c \<in> set (classList n))"

text \<open>All descendants of a node in document order (the node itself excluded).\<close>

fun descendants :: "node \<Rightarrow> node list" where
  "descendants (TextNode t) = []"
| "descendants (Element n as cs) = concat (map (\<lambda>c. c # descendants c) cs)"

text \<open>\<open>querySelectorAll\<close> with a tag selector, \<open>querySelector\<close> with a class selector.\<close>

definition querySelectorAll :: "node \<Rightarrow> string \<Rightarrow> node list" where
  "querySelectorAll n tag = filter (\<lambda>d. nodeName d = tag) (descendants n)"

definition querySelectorClass :: "node \<Rightarrow> string \<Rightarrow> node option" where
  "querySelectorClass n c = List.find (\<lambda>d. classList_contains d c) (descendants n)"

fun textContent :: "node \<Rightarrow> string" where
  "textContent (TextNode t) = t"
| "textContent (Element n as cs) = concat (map textContent cs)"

text \<open>
  The generic conversion of the Turndown library, \<open>turndownService.turndown\<close>, is not part of
  the repository: the rules take it as the parameter \<open>conv\<close>, from the children of a node
  (its \<open>innerHTML\<close>) to Markdown.
\<close>

type_synonym turndown = "node list \<Rightarrow> string"

section \<open>The table rule (confluenceTables)\<close>

definition headerLine :: "turndown \<Rightarrow> node list \<Rightarrow> string" where
  "headerLine conv headerCells =
     ''| '' @ join '' | '' (map (\<lambda>cell. trim (conv (childNodes cell))) headerCells) @ '' |'' @ nl"

definition separatorLine :: "node list \<Rightarrow> string" where
  "separatorLine headerCells =
     ''| '' @ join '' | '' (map (\<lambda>cell. ''---'') headerCells) @ '' |'' @ nl"

text \<open>One pass of the body of the data-row loop: a row without \<open>td\<close> cells adds nothing.\<close>

definition dataLine :: "turndown \<Rightarrow> node \<Rightarrow> string" where
  "dataLine conv row =
     (let cells = querySelectorAll row ''TD''
      in if length cells > 0
         then ''| '' @ join '' | '' (map (\<lambda>cell. trim (conv (childNodes cell))) cells) @ '' |'' @ nl
         else [])"

text \<open>The loop \<open>for (let i = start; i < rows.length; i++)\<close>.\<close>

function dataRowsFrom :: "turndown \<Rightarrow> node list \<Rightarrow> nat \<Rightarrow> string" where
  "dataRowsFrom conv rows i =
     (if i < length rows then dataLine conv (rows ! i) @ dataRowsFrom conv rows (Suc i) else [])"
  by pat_completeness auto
termination
  by (relation "measure (\<lambda>(conv, rows, i). length rows - i)") auto

declare dataRowsFrom.simps [simp del]

definition confluenceTables_replacement :: "turndown \<Rightarrow> node \<Rightarrow> string" where
  "confluenceTables_replacement conv n =
     (let rows = querySelectorAll n ''TR''
      in if length rows = 0 then []
         else
           (let headerCells = querySelectorAll (rows ! 0) ''TH'';
                markdown0 = nl;
                markdown1 = (if length headerCells > 0
                             then markdown0 @ headerLine conv headerCells @ separatorLine headerCells
                             else markdown0);
                markdown2 = markdown1 @ dataRowsFrom conv rows (if length headerCells > 0 then 1 else 0)
            in markdown2 @ nl))"

text \<open>A stand-in for the library conversion on concrete inputs: the text of the nodes.\<close>

definition textOnly :: turndown where
  "textOnly ns = concat (map textContent ns)"

section \<open>The admonition, image and diagram rules\<close>

text \<open>
  \<open>preprocessConfluenceHtml\<close> rewrites every \<open>ac:structured-macro\<close> before the tree is built.
  The macro is taken here as already cut into the three pieces the regular expressions of the
  source extract: the first \<open>ac:name\<close>, the \<open>title\<close> parameter (empty when there is none)
  and the rich-text body (or, for a code macro, the language and the plain-text body).
\<close>

record macro =
  macroName :: string
  titleParam :: string
  languageParam :: string
  plainTextBody :: string
  richTextBody :: "node list"

definition preprocessMacro :: "macro \<Rightarrow> node" where
  "preprocessMacro m =
     (if macroName m = ''code''
      then Element ''DIV'' [(''class'', ''code''), (''data-language'', languageParam m)]
             [Element ''PRE'' [] [TextNode (plainTextBody m)]]
      else if macroName m \<in> set [''note'', ''info'', ''warning'']
      then Element ''DIV'' [(''class'', ''confluence-'' @ macroName m @ ''-macro'')]
             ([TextNode (nl @ ''          '')] @
              (if titleParam m \<noteq> []
               then [Element ''DIV'' [(''class'', ''confluence-information-macro-title'')]
                       [TextNode (titleParam m)]]
               else []) @
              [TextNode (nl @ ''          ''),
               Element ''DIV'' [(''class'', ''confluence-information-macro-body'')] (richTextBody m),
               TextNode (nl @ ''        '')])
      else Element ''AC:STRUCTURED-MACRO'' [(''ac:name'', macroName m)] (richTextBody m))"

definition confluenceCodeBlock_filter :: "node \<Rightarrow> bool" where
  "confluenceCodeBlock_filter n =
     (nodeName n = ''DIV'' \<and> classList_contains n ''code'' \<and> querySelectorAll n ''PRE'' \<noteq> [])"

definition confluenceAdmonitions_filter :: "node \<Rightarrow> bool" where
  "confluenceAdmonitions_filter n =
     (nodeName n = ''DIV'' \<and>
      (classList_contains n ''confluence-information-macro'' \<or>
       classList_contains n ''confluence-warning-macro'' \<or>
       classList_contains n ''confluence-note-macro''))"

definition confluenceAdmonitions_replacement :: "turndown \<Rightarrow> node \<Rightarrow> string" where
  "confluenceAdmonitions_replacement conv n =
     (let type = (if classList_contains n ''confluence-warning-macro'' then ''warning''
                  else if classList_contains n ''confluence-note-macro'' then ''note''
                  else ''info'');
          title = (case querySelectorClass n ''confluence-information-macro-title'' of
                     Some titleElement \<Rightarrow> textContent titleElement
                   | None \<Rightarrow> []);
          body = (case querySelectorClass n ''confluence-information-macro-body'' of
                    Some bodyElement \<Rightarrow> conv (childNodes bodyElement)
                  | None \<Rightarrow> [])
      in nl @ '':::'' @ type @ (if title \<noteq> [] then '' '' @ title else []) @ nl @
         body @ nl @ '':::'' @ nl @ nl)"

definition confluenceTables_filter :: "node \<Rightarrow> bool" where
  "confluenceTables_filter n = (nodeName n = ''TABLE'')"

definition confluenceImages_filter :: "node \<Rightarrow> bool" where
  "confluenceImages_filter n = (nodeName n = ''IMG'')"

text \<open>\<open>s.split('/').pop().split('?')[0]\<close>.\<close>

definition urlFilename :: "string \<Rightarrow> string" where
  "urlFilename src = hd (splitOn CHR ''?'' (last (splitOn CHR ''/'' src)))"

definition confluenceImages_replacement :: "node \<Rightarrow> string" where
  "confluenceImages_replacement n =
     (let alt = (case getAttribute n ''alt'' of Some a \<Rightarrow> a | None \<Rightarrow> []);
          src = (case getAttribute n ''src'' of Some s \<Rightarrow> s | None \<Rightarrow> [])
      in if \<not> startsWith src ''http'' \<and> \<not> startsWith src ''data:''
         then ''!['' @ alt @ '']('' @ src @ '')''
         else if includes_str src ''/download/attachments/''
         then ''!['' @ alt @ '']('' @ urlFilename src @ '')''
         else ''!['' @ alt @ '']('' @ src @ '')'')"

definition mermaidDiagrams_filter :: "node \<Rightarrow> bool" where
  "mermaidDiagrams_filter n =
     (nodeName n = ''IMG'' \<and>
      (case getAttribute n ''alt'' of
         None \<Rightarrow> False
       | Some alt \<Rightarrow> alt \<noteq> [] \<and> includes_str alt ''mermaid-diagram''))"

definition mermaidPlaceholder :: string where
  "mermaidPlaceholder =
     nl @ ''```mermaid'' @ nl @ ''// Original Mermaid diagram was here'' @ nl @
     ''// Automatic conversion back to Mermaid code is not supported'' @ nl @ ''```'' @ nl @ nl"

definition mermaidDiagrams_replacement :: "string \<Rightarrow> node \<Rightarrow> string" where
  "mermaidDiagrams_replacement content n = mermaidPlaceholder"

definition confluenceLinks_filter :: "node \<Rightarrow> bool" where
  "confluenceLinks_filter n = (nodeName n = ''A'')"

definition confluenceLinks_replacement :: "string \<Rightarrow> node \<Rightarrow> string" where
  "confluenceLinks_replacement content n =
     (case getAttribute n ''href'' of
        None \<Rightarrow> content
      | Some href \<Rightarrow>
          if href = [] then content
          else if includes_str href ''/wiki/spaces/'' \<and> includes_str href ''/pages/''
          then ''['' @ content @ '']('' @ href @ '')''
          else ''['' @ content @ '']('' @ href @ '')'')"

text \<open>
  \<open>addRule\<close> of the Turndown library puts each added rule in front of the ones added before,
  and the rule of a node is the first one whose filter accepts it; a node that none of them
  accepts goes to the rules of the library (\<open>LibraryRule\<close>). The order below is therefore the
  reverse of the order of the \<open>addRule\<close> calls in \<open>setupTurndownRules\<close>. (The library sets
  blank nodes aside before it consults the rules; an \<open>img\<close>, being a void element, and a
  \<open>div\<close> with text in it are never blank.)
\<close>

datatype rule =
  ConfluenceCodeBlock | ConfluenceAdmonitions | ConfluenceTables | ConfluenceImages
| MermaidDiagrams | ConfluenceLinks | LibraryRule

definition addedRules :: "(rule \<times> (node \<Rightarrow> bool)) list" where
  "addedRules =
     [(ConfluenceLinks, confluenceLinks_filter),
      (MermaidDiagrams, mermaidDiagrams_filter),
      (ConfluenceImages, confluenceImages_filter),
      (ConfluenceTables, confluenceTables_filter),
      (ConfluenceAdmonitions, confluenceAdmonitions_filter),
      (ConfluenceCodeBlock, confluenceCodeBlock_filter)]"

definition forNode :: "node \<Rightarrow> rule" where
  "forNode n =
     (case List.find (\<lambda>(r, f). f n) addedRules of
        Some (r, f) \<Rightarrow> r
      | None \<Rightarrow> LibraryRule)"

text \<open>
  The Markdown a node is replaced by. \<open>content\<close> is the converted content of the node and
  \<open>lib\<close> the replacement of the library's own rules.
\<close>

definition replacementFor :: "turndown \<Rightarrow> (string \<Rightarrow> node \<Rightarrow> string) \<Rightarrow> string \<Rightarrow> node \<Rightarrow> string" where
  "replacementFor conv lib content n =
     (case forNode n of
        ConfluenceLinks \<Rightarrow> confluenceLinks_replacement content n
      | MermaidDiagrams \<Rightarrow> mermaidDiagrams_replacement content n
      | ConfluenceImages \<Rightarrow> confluenceImages_replacement n
      | ConfluenceTables \<Rightarrow> confluenceTables_replacement conv n
      | ConfluenceAdmonitions \<Rightarrow> confluenceAdmonitions_replacement conv n
      | ConfluenceCodeBlock \<Rightarrow>
          nl @ ''```'' @ (case getAttribute n ''data-language'' of Some l \<Rightarrow> l | None \<Rightarrow> []) @ nl @
          (case querySelectorAll n ''PRE'' of p # ps \<Rightarrow> textContent p | [] \<Rightarrow> []) @ nl @
          ''```'' @ nl @ nl
      | LibraryRule \<Rightarrow> lib content n)"

section \<open>Attachments of a page (downloadAndSaveAttachment)\<close>

text \<open>
  An attachment as the wiki's API returns it: \<open>title\<close>, \<open>id\<close>, \<open>version.when\<close>,
  \<open>metadata.createdDate\<close> and \<open>_links.download\<close>, each \<open>None\<close> when the field is missing.
\<close>

record attachment =
  att_title :: "string option"
  att_id :: "string option"
  version_when :: "string option"
  metadata_createdDate :: "string option"
  links_download :: "string option"

text \<open>
  The client the parser was constructed with: its base URL and \<open>downloadAttachment\<close>, which
  gives the bytes or throws (\<open>None\<close>).
\<close>

record client =
  baseUrl :: string
  downloadAttachment :: "string \<Rightarrow> string option"

text \<open>
  The local files: a path has a modification time (milliseconds, as \<open>Date\<close> compares them) and
  bytes. \<open>requested\<close> logs the URLs handed to \<open>downloadAttachment\<close>, oldest first.
\<close>

record localFile =
  mtime :: int
  bytes :: string

record disk =
  files :: "string \<rightharpoonup> localFile"
  requested :: "string list"

text \<open>
  The functions of Node's \<open>path\<close> module and the failures of the file system are not part of
  the repository: \<open>fs_join\<close>, \<open>fs_dirname\<close>, \<open>fs_extname\<close> and \<open>fs_resolve\<close> are \<open>path.join\<close>,
  \<open>path.dirname\<close>, \<open>path.extname\<close> and \<open>path.resolve\<close> from the project root, and
  \<open>fs_statFails\<close>, \<open>fs_readFails\<close> and \<open>fs_writeFails\<close> tell for which paths \<open>fs.stat\<close>,
  \<open>fs.readFile\<close> and \<open>fs.writeFile\<close> throw. A write that throws leaves the file as it was.
\<close>

record nodeFs =
  fs_join :: "string \<Rightarrow> string \<Rightarrow> string"
  fs_dirname :: "string \<Rightarrow> string"
  fs_extname :: "string \<Rightarrow> string"
  fs_resolve :: "string \<Rightarrow> string"
  fs_statFails :: "string \<Rightarrow> bool"
  fs_readFails :: "string \<Rightarrow> bool"
  fs_writeFails :: "string \<Rightarrow> bool"

record imageRef =
  relativePath :: string
  alt :: string

text \<open>JavaScript truthiness of an optional string: present and not empty.\<close>

fun truthy :: "string option \<Rightarrow> bool" where
  "truthy None = False"
| "truthy (Some s) = (s \<noteq> [])"

definition safeChars :: "char list" where
  "safeChars = ''abcdefghijklmnopqrstuvwxyzABCDEFGHIJKLMNOPQRSTUVWXYZ0123456789.-''"

text \<open>\<open>filename.replace(/[^a-zA-Z0-9.-]/g, '_')\<close>.\<close>

definition safeFilename :: "string \<Rightarrow> string" where
  "safeFilename filename = map (\<lambda>c. if c \<in> set safeChars then c else CHR ''_'') filename"

text \<open>
  \<open>new Date(attachment.version?.when || attachment.metadata?.createdDate || 0)\<close>. The parsing of
  a date string belongs to the language: \<open>parseDate\<close> gives the milliseconds, \<open>None\<close> for an
  invalid date, which compares false with everything.
\<close>

definition attachmentDate :: "(string \<Rightarrow> int option) \<Rightarrow> attachment \<Rightarrow> int option" where
  "attachmentDate parseDate a =
     (if truthy (version_when a) then parseDate (the (version_when a))
      else if truthy (metadata_createdDate a) then parseDate (the (metadata_createdDate a))
      else Some 0)"

text \<open>\<open>getAttachmentDownloadUrl\<close> of the client.\<close>

definition getAttachmentDownloadUrl :: "client \<Rightarrow> attachment \<Rightarrow> string option" where
  "getAttachmentDownloadUrl c a =
     (if \<not> truthy (links_download a) then None
      else Some (baseUrl c @ ''/wiki/'' @ the (links_download a)))"

text \<open>\<open>stats.mtime >= attachmentDate\<close> for a file that exists.\<close>

definition isRecent :: "(string \<Rightarrow> int option) \<Rightarrow> attachment \<Rightarrow> localFile \<Rightarrow> bool" where
  "isRecent parseDate a f =
     (case attachmentDate parseDate a of None \<Rightarrow> False | Some d \<Rightarrow> mtime f \<ge> d)"

text \<open>
  The second half of \<open>downloadAndSaveAttachment\<close>, from the download URL on. Like the first
  half it runs inside the \<open>try\<close> of the function, whose \<open>catch\<close> returns \<open>null\<close>: a failed
  download or a failed write gives no image.
\<close>

definition downloadAndWrite ::
  "nodeFs \<Rightarrow> int \<Rightarrow> client \<Rightarrow> attachment \<Rightarrow> string \<Rightarrow> imageRef \<Rightarrow> disk \<Rightarrow> imageRef option \<times> disk" where
  "downloadAndWrite fs now c a imagePath found d =
     (case getAttachmentDownloadUrl c a of
        None \<Rightarrow> (None, d)
      | Some downloadUrl \<Rightarrow>
          (let d1 = d\<lparr>requested := requested d @ [downloadUrl]\<rparr>
           in case downloadAttachment c downloadUrl of
                None \<Rightarrow> (None, d1)
              | Some buffer \<Rightarrow>
                  if fs_writeFails fs imagePath then (None, d1)
                  else (Some found,
                        d1\<lparr>files := (files d1)(imagePath \<mapsto> \<lparr>mtime = now, bytes = buffer\<rparr>)\<rparr>)))"

definition downloadAndSaveAttachment ::
  "nodeFs \<Rightarrow> (string \<Rightarrow> int option) \<Rightarrow> int \<Rightarrow> client option \<Rightarrow> attachment \<Rightarrow> string \<Rightarrow> string
     \<Rightarrow> disk \<Rightarrow> imageRef option \<times> disk" where
  "downloadAndSaveAttachment fs parseDate now confluenceClient a filename imagesDir d =
     (case confluenceClient of
        None \<Rightarrow> (None, d)
      | Some c \<Rightarrow>
          (let safe = safeFilename filename;
               imagePath = fs_join fs imagesDir safe;
               imageRelativePath = ''images/'' @ safe;
               found = \<lparr>relativePath = imageRelativePath,
                        alt = (if truthy (att_title a) then the (att_title a) else filename)\<rparr>
           in case files d imagePath of
                Some f \<Rightarrow>
                  if fs_statFails fs imagePath then (None, d)
                  else if isRecent parseDate a f then (Some found, d)
                  else downloadAndWrite fs now c a imagePath found d
              | None \<Rightarrow> downloadAndWrite fs now c a imagePath found d))"

subsection \<open>The references of a page (processConfluenceAttachmentReferences)\<close>

definition toLowerCase :: "char \<Rightarrow> char" where
  "toLowerCase c =
     (case map_of (zip ''ABCDEFGHIJKLMNOPQRSTUVWXYZ'' ''abcdefghijklmnopqrstuvwxyz'') c of
        Some l \<Rightarrow> l
      | None \<Rightarrow> c)"

definition isImageFile :: "nodeFs \<Rightarrow> string \<Rightarrow> bool" where
  "isImageFile fs filename =
     (map toLowerCase (fs_extname fs filename) \<in>
        set [''.jpg'', ''.jpeg'', ''.png'', ''.gif'', ''.svg'', ''.webp'', ''.bmp'', ''.tiff''])"

text \<open>
  The map that \<open>processImagesWithAttachments\<close> builds: every attachment with an image title,
  by its title and, if it has one, by its identifier; a later entry replaces an earlier one.
\<close>

fun attachmentMapFrom ::
  "nodeFs \<Rightarrow> (string \<rightharpoonup> attachment) \<Rightarrow> attachment list \<Rightarrow> (string \<rightharpoonup> attachment)" where
  "attachmentMapFrom fs m [] = m"
| "attachmentMapFrom fs m (a # rest) =
     (if truthy (att_title a) \<and> isImageFile fs (the (att_title a))
      then attachmentMapFrom fs
             (if truthy (att_id a) then (m(the (att_title a) \<mapsto> a))(the (att_id a) \<mapsto> a)
              else m(the (att_title a) \<mapsto> a))
             rest
      else attachmentMapFrom fs m rest)"

text \<open>
  One pass of the first loop of \<open>processConfluenceAttachmentReferences\<close>, over the reference
  \<open><ac:image><ri:attachment ri:filename="..."/></ac:image>\<close> with the given file name: the image
  that replaces the reference, or \<open>None\<close> when the reference is left as it is.
\<close>

definition attachmentReference ::
  "nodeFs \<Rightarrow> (string \<Rightarrow> int option) \<Rightarrow> int \<Rightarrow> client option \<Rightarrow> (string \<rightharpoonup> attachment) \<Rightarrow> string
     \<Rightarrow> string \<Rightarrow> disk \<Rightarrow> imageRef option \<times> disk" where
  "attachmentReference fs parseDate now confluenceClient attachmentMap imagesDir filename d =
     (case attachmentMap filename of
        Some a \<Rightarrow> downloadAndSaveAttachment fs parseDate now confluenceClient a filename imagesDir d
      | None \<Rightarrow> (None, d))"

definition imgElement :: "imageRef \<Rightarrow> node" where
  "imgElement processedImage =
     Element ''IMG'' [(''src'', relativePath processedImage), (''alt'', alt processedImage)] []"

text \<open>The loop over the references of a page, in the order of the page.\<close>

fun storageAttachments ::
  "nodeFs \<Rightarrow> (string \<Rightarrow> int option) \<Rightarrow> int \<Rightarrow> client option \<Rightarrow> (string \<rightharpoonup> attachment) \<Rightarrow> string
     \<Rightarrow> string list \<Rightarrow> disk \<Rightarrow> node option list \<times> disk" where
  "storageAttachments fs parseDate now confluenceClient attachmentMap imagesDir [] d = ([], d)"
| "storageAttachments fs parseDate now confluenceClient attachmentMap imagesDir (filename # rest) d =
     (case attachmentReference fs parseDate now confluenceClient attachmentMap imagesDir filename d of
        (processedImage, d1) \<Rightarrow>
          (case storageAttachments fs parseDate now confluenceClient attachmentMap imagesDir rest d1 of
             (replaced, d2) \<Rightarrow> (map_option imgElement processedImage # replaced, d2)))"

text \<open>
  \<open>processImagesWithAttachments\<close> up to that loop, for the references of the page: the images
  go to the directory \<open>images\<close> beside the target file.
\<close>

definition imagesDirOf :: "nodeFs \<Rightarrow> string \<Rightarrow> string" where
  "imagesDirOf fs targetFilePath = fs_join fs (fs_dirname fs targetFilePath) ''images''"

definition processImagesWithAttachments ::
  "nodeFs \<Rightarrow> (string \<Rightarrow> int option) \<Rightarrow> int \<Rightarrow> client option \<Rightarrow> attachment list \<Rightarrow> string
     \<Rightarrow> string list \<Rightarrow> disk \<Rightarrow> node option list \<times> disk" where
  "processImagesWithAttachments fs parseDate now confluenceClient attachments targetFilePath
       references d =
     storageAttachments fs parseDate now confluenceClient
       (attachmentMapFrom fs Map.empty attachments) (imagesDirOf fs targetFilePath) references d"

section \<open>The wiki client (ConfluenceClient)\<close>

text \<open>
  A page as the REST interface returns it. \<open>page_version\<close> is \<open>version?.number\<close>, \<open>None\<close> when
  the field is missing.
\<close>

record page =
  page_id :: string
  page_title :: string
  page_version :: "nat option"
  page_body :: "string option"

type_synonym error = string

text \<open>
  The HTTP calls of the client, over a remote of any type \<open>'r\<close>. A write gives the page of the
  response and the new remote, or fails (\<open>None\<close>, the exception of the HTTP library). The reads
  are the client's methods with their \<open>catch\<close> applied: \<open>findPageByTitle\<close> gives \<open>null\<close> and
  \<open>getPageChildren\<close> the empty list on a failure; \<open>getPageById\<close> rethrows.
\<close>

record 'r api =
  api_testConnection :: "'r \<Rightarrow> bool"
  api_findPageByTitle :: "'r \<Rightarrow> string \<Rightarrow> page option"
  api_getPageChildren :: "'r \<Rightarrow> string \<Rightarrow> page list"
  api_getPageById :: "'r \<Rightarrow> string \<Rightarrow> error + page option"
  api_post :: "'r \<Rightarrow> string \<Rightarrow> string \<Rightarrow> string option \<Rightarrow> (page \<times> 'r) option"
  api_put :: "'r \<Rightarrow> string \<Rightarrow> string \<Rightarrow> string \<Rightarrow> nat \<Rightarrow> (page \<times> 'r) option"

text \<open>The calls of the client that a run makes, in order.\<close>

datatype call =
  FindOrCreateParentPage string "string option"
| CreateOrUpdatePage string
| CreatePage string "string option"
| UpdatePage string string nat

text \<open>The remote together with the log of the calls made so far.\<close>

record 'r world =
  remote :: "'r"
  calls :: "call list"

definition logCall :: "call \<Rightarrow> 'r world \<Rightarrow> 'r world" where
  "logCall c w = w\<lparr>calls := calls w @ [c]\<rparr>"

text \<open>\<open>x?.number || 1\<close>: a missing or zero version number counts as 1.\<close>

fun orOne :: "nat option \<Rightarrow> nat" where
  "orOne None = 1"
| "orOne (Some n) = (if n = 0 then 1 else n)"

definition createPage ::
  "'r api \<Rightarrow> string \<Rightarrow> string \<Rightarrow> string option \<Rightarrow> 'r world \<Rightarrow> (error + page) \<times> 'r world" where
  "createPage a title content parentId w =
     (let w1 = logCall (CreatePage title (if truthy parentId then parentId else None)) w
      in case api_post a (remote w) title content (if truthy parentId then parentId else None) of
           None \<Rightarrow> (Inl ''Request failed'', w1)
         | Some (p, r) \<Rightarrow> (Inr p, w1\<lparr>remote := r\<rparr>))"

definition updatePage ::
  "'r api \<Rightarrow> string \<Rightarrow> string \<Rightarrow> string \<Rightarrow> nat \<Rightarrow> 'r world \<Rightarrow> (error + page) \<times> 'r world" where
  "updatePage a pageId title content version w =
     (let w1 = logCall (UpdatePage pageId title version) w
      in case api_put a (remote w) pageId title content version of
           None \<Rightarrow> (Inl ''Request failed'', w1)
         | Some (p, r) \<Rightarrow> (Inr p, w1\<lparr>remote := r\<rparr>))"

record pageData =
  pd_title :: string
  pd_content :: string
  pd_parentId :: "string option"

definition wrapSyncError :: "string \<Rightarrow> (error + page) \<times> 'r world \<Rightarrow> (error + page) \<times> 'r world" where
  "wrapSyncError title res =
     (case res of
        (Inl e, w) \<Rightarrow> (Inl (''Failed to sync page \"'' @ title @ ''\": '' @ e), w)
      | (Inr p, w) \<Rightarrow> (Inr p, w))"

definition createOrUpdatePage :: "'r api \<Rightarrow> pageData \<Rightarrow> 'r world \<Rightarrow> (error + page) \<times> 'r world" where
  "createOrUpdatePage a pd w0 =
     (let w = logCall (CreateOrUpdatePage (pd_title pd)) w0
      in case api_findPageByTitle a (remote w) (pd_title pd) of
           Some existingPage \<Rightarrow>
             (let version = orOne (page_version existingPage)
              in wrapSyncError (pd_title pd)
                   (updatePage a (page_id existingPage) (pd_title pd) (pd_content pd) (version + 1) w))
         | None \<Rightarrow>
             wrapSyncError (pd_title pd)
               (createPage a (pd_title pd) (pd_content pd) (pd_parentId pd) w))"

definition findPageByTitleAndParent :: "'r api \<Rightarrow> string \<Rightarrow> string option \<Rightarrow> 'r \<Rightarrow> page option" where
  "findPageByTitleAndParent a title parentId r =
     (if \<not> truthy parentId then api_findPageByTitle a r title
      else List.find (\<lambda>child. page_title child = title) (api_getPageChildren a r (the parentId)))"

definition wordChars :: "char list" where
  "wordChars = ''abcdefghijklmnopqrstuvwxyzABCDEFGHIJKLMNOPQRSTUVWXYZ0123456789_''"

definition toUpperCase :: "char \<Rightarrow> char" where
  "toUpperCase c =
     (case map_of (zip ''abcdefghijklmnopqrstuvwxyz'' ''ABCDEFGHIJKLMNOPQRSTUVWXYZ'') c of
        Some u \<Rightarrow> u
      | None \<Rightarrow> c)"

text \<open>
  \<open>.replace(/\<bslash>b\<bslash>w/g, c => c.toUpperCase())\<close>: a word character is put in upper case when
  the character before it is not a word character (\<open>prev\<close> tells whether it is).
\<close>

fun capitalizeWords :: "bool \<Rightarrow> string \<Rightarrow> string" where
  "capitalizeWords prev [] = []"
| "capitalizeWords prev (c # cs) =
     (if c \<in> set wordChars \<and> \<not> prev then toUpperCase c else c)
       # capitalizeWords (c \<in> set wordChars) cs"

definition formatCategoryTitle :: "string \<Rightarrow> string" where
  "formatCategoryTitle segment =
     capitalizeWords False (map (\<lambda>c. if c = CHR ''-'' then CHR '' '' else c) segment)"

definition parentPageContent :: "string \<Rightarrow> string \<Rightarrow> string" where
  "parentPageContent title pathSoFar =
     ''<p>This page contains documentation for <strong>'' @ title @ ''</strong>.</p>'' @ nl @
     ''                   <p><em>Category path: '' @ pathSoFar @ ''</em></p>''"

text \<open>The loop of \<open>findOrCreateParentPage\<close> over the segments that are left.\<close>

fun walkSegments ::
  "'r api \<Rightarrow> string list \<Rightarrow> string option \<Rightarrow> string \<Rightarrow> 'r world \<Rightarrow> (error + string option) \<times> 'r world" where
  "walkSegments a [] currentParentId pathSoFar w = (Inr currentParentId, w)"
| "walkSegments a (segment # rest) currentParentId pathSoFar w =
     (let pathSoFar1 = (if pathSoFar \<noteq> [] then pathSoFar @ ''/'' @ segment else segment);
          title = formatCategoryTitle segment
      in case findPageByTitleAndParent a title currentParentId (remote w) of
           Some p \<Rightarrow> walkSegments a rest (Some (page_id p)) pathSoFar1 w
         | None \<Rightarrow>
             (case createOrUpdatePage a
                     \<lparr>pd_title = title, pd_content = parentPageContent title pathSoFar1,
                      pd_parentId = currentParentId\<rparr> w of
                (Inl e, w1) \<Rightarrow> (Inl e, w1)
              | (Inr p, w1) \<Rightarrow> walkSegments a rest (Some (page_id p)) pathSoFar1 w1))"

definition findOrCreateParentPage ::
  "'r api \<Rightarrow> string \<Rightarrow> string option \<Rightarrow> 'r world \<Rightarrow> (error + string option) \<times> 'r world" where
  "findOrCreateParentPage a categoryPath rootParentId w0 =
     (let w = logCall (FindOrCreateParentPage categoryPath rootParentId) w0
      in if categoryPath = [] then (Inr rootParentId, w)
         else walkSegments a (filter (\<lambda>s. s \<noteq> []) (splitOn CHR ''/'' categoryPath))
                rootParentId [] w)"

text \<open>
  A remote for concrete runs: a store that answers every call. It keeps the pages with their
  parents and takes the identifier of a new page from a list of fresh ones.
\<close>

record store =
  stored :: "(page \<times> string option) list"
  freshIds :: "string list"

definition storeApi :: "store api" where
  "storeApi =
     \<lparr>api_testConnection = (\<lambda>r. True),
      api_findPageByTitle = (\<lambda>r t. map_option fst (List.find (\<lambda>(p, par). page_title p = t) (stored r))),
      api_getPageChildren = (\<lambda>r pid. map fst (filter (\<lambda>(p, par). par = Some pid) (stored r))),
      api_getPageById = (\<lambda>r pid. Inr (map_option fst (List.find (\<lambda>(p, par). page_id p = pid) (stored r)))),
      api_post = (\<lambda>r t c par.
        case freshIds r of
          [] \<Rightarrow> None
        | i # is \<Rightarrow>
            (let p = \<lparr>page_id = i, page_title = t, page_version = Some 1, page_body = Some c\<rparr>
             in Some (p, \<lparr>stored = stored r @ [(p, par)], freshIds = is\<rparr>))),
      api_put = (\<lambda>r pid t c v.
        case List.find (\<lambda>(p, par). page_id p = pid) (stored r) of
          None \<Rightarrow> None
        | Some (old, par) \<Rightarrow>
            (let p = \<lparr>page_id = pid, page_title = t, page_version = Some v, page_body = Some c\<rparr>
             in Some (p, r\<lparr>stored := map (\<lambda>(q, qpar). if page_id q = pid then (p, qpar) else (q, qpar))
                                         (stored r)\<rparr>)))\<rparr>"


text \<open>The titles of the pages of a store, and the page that \<open>findOrCreateParentPage\<close> asks
  the wiki to create for a segment: the formatted title with the placeholder content.\<close>

definition titlesOf :: "store \<Rightarrow> string list" where
  "titlesOf r = map (\<lambda>(p, parent). page_title p) (stored r)"

definition containerPage :: "string \<Rightarrow> string \<Rightarrow> string \<Rightarrow> page" where
  "containerPage i title pathSoFar =
     \<lparr>page_id = i, page_title = title, page_version = Some 1,
      page_body = Some (parentPageContent title pathSoFar)\<rparr>"


section \<open>The sync state (StateManager)\<close>

text \<open>
  What a run stores for a path: the object handed to \<open>setPageState\<close> by the sync commands.
\<close>

record pageInfo =
  confluenceId :: "string option"
  pi_title :: string
  pi_category :: string
  pi_lastModified :: int
  pi_parentId :: "string option"
  pi_version :: "nat option"

text \<open>The \<open>pages\<close> object of the state, in the order of its keys.\<close>

type_synonym syncState = "(string \<times> pageInfo) list"

text \<open>
  Modelled from the spec: state-manager.js is not among the sources; only its callers are. The
  spec gives \<open>needsPush(path, currentFingerprint)\<close>: true if no record exists for the path, or
  if the fingerprint differs from the one last synced. The fingerprint the callers pass is the
  modification time of the document.
\<close>

definition needsSync :: "syncState \<Rightarrow> string \<Rightarrow> int \<Rightarrow> bool" where
  "needsSync st path lastModified =
     (case map_of st path of
        None \<Rightarrow> True
      | Some info \<Rightarrow> pi_lastModified info \<noteq> lastModified)"

text \<open>The larger of the recorded and the new version number, where either may be missing.\<close>

fun laterVersion :: "nat option \<Rightarrow> nat option \<Rightarrow> nat option" where
  "laterVersion None new = new"
| "laterVersion (Some old) None = Some old"
| "laterVersion (Some old) (Some new) = Some (max old new)"

text \<open>
  Modelled from the spec: \<open>setPageState\<close> of state-manager.js is not among the sources. The spec
  gives \<open>recordPush(path, remotePageId, remoteVersion, parentId, category, fingerprint)\<close>: an
  upsert, never decreasing \<open>remoteVersion\<close>, with at most one record for a path. The record of
  the path is replaced by the new one, which keeps the larger version number.
\<close>

definition setPageState :: "syncState \<Rightarrow> string \<Rightarrow> pageInfo \<Rightarrow> syncState" where
  "setPageState st path info =
     AList.update path
       (info\<lparr>pi_version :=
          laterVersion (case map_of st path of None \<Rightarrow> None | Some old \<Rightarrow> pi_version old)
            (pi_version info)\<rparr>)
       st"

text \<open>
  Modelled from the spec: \<open>cleanupOrphanedPages\<close> of state-manager.js is not among the sources.
  The spec gives \<open>findOrphans(currentPaths)\<close>: the records whose path is absent from the
  current paths; they are removed.
\<close>

definition cleanupOrphanedPages :: "syncState \<Rightarrow> string list \<Rightarrow> syncState" where
  "cleanupOrphanedPages st existingFiles = filter (\<lambda>(path, info). path \<in> set existingFiles) st"

text \<open>The version recorded for a path, 0 when there is no record or no number.\<close>

definition recordedVersion :: "syncState \<Rightarrow> string \<Rightarrow> nat" where
  "recordedVersion st path =
     (case map_of st path of
        None \<Rightarrow> 0
      | Some info \<Rightarrow> (case pi_version info of None \<Rightarrow> 0 | Some v \<Rightarrow> v))"

section \<open>The sync commands (syncDocs, syncFile, syncReverse)\<close>

record document =
  doc_relativePath :: string
  doc_title :: string
  doc_category :: string
  doc_content :: string
  doc_lastModified :: int
  hasImages :: bool
  hasMermaid :: bool

record parsedContent =
  pc_content :: string
  pc_htmlContent :: string
  pc_mermaidProcessed :: nat

text \<open>
  The Markdown parser and the image processor are not among the sources: the commands take
  them as parameters. Each may throw (\<open>Inl\<close>). \<open>parseMarkdown\<close> gets the page identifier on
  the second pass. \<open>saveState\<close> writes the state file and may throw as well.
\<close>

record collaborators =
  parseMarkdown :: "document \<Rightarrow> string option \<Rightarrow> error + parsedContent"
  processImages :: "string \<Rightarrow> parsedContent \<Rightarrow> error + string"
  convertToConfluenceFormat :: "string \<Rightarrow> string"
  saveState :: "syncState \<Rightarrow> error option"

record config =
  rootPageTitle :: "string option"
  spaceKey :: string

record stats =
  processed :: nat
  created :: nat
  updated :: nat
  skipped :: nat
  failed :: nat

text \<open>The object a command returns; the early return for an empty scan has no \<open>failed\<close>.\<close>

record summary =
  sum_processed :: nat
  sum_created :: nat
  sum_updated :: nat
  sum_skipped :: nat
  sum_failed :: "nat option"

text \<open>\<open>[...new Set(xs)]\<close>: the first occurrence of each element, in order.\<close>

fun uniqFrom :: "'a list \<Rightarrow> 'a list \<Rightarrow> 'a list" where
  "uniqFrom seen [] = []"
| "uniqFrom seen (x # xs) = (if x \<in> set seen then uniqFrom seen xs else x # uniqFrom (seen @ [x]) xs)"

definition categoriesOf :: "document list \<Rightarrow> string list" where
  "categoriesOf documents = uniqFrom [] (filter (\<lambda>c. c \<noteq> []) (map doc_category documents))"

text \<open>Step 8 of \<open>syncDocs\<close>: the loop that fills the hierarchy map.\<close>

fun buildHierarchy ::
  "'r api \<Rightarrow> string option \<Rightarrow> string list \<Rightarrow> (string \<rightharpoonup> string option) \<Rightarrow> 'r world
     \<Rightarrow> (error + (string \<rightharpoonup> string option)) \<times> 'r world" where
  "buildHierarchy a parentId [] hierarchyMap w = (Inr hierarchyMap, w)"
| "buildHierarchy a parentId (category # rest) hierarchyMap w =
     (if hierarchyMap category \<noteq> None then buildHierarchy a parentId rest hierarchyMap w
      else
        (case findOrCreateParentPage a category parentId w of
           (Inl e, w1) \<Rightarrow> (Inl e, w1)
         | (Inr categoryParentId, w1) \<Rightarrow>
             buildHierarchy a parentId rest (hierarchyMap(category \<mapsto> categoryParentId)) w1))"

text \<open>The second pass over a document with images or diagrams, and the update that follows.\<close>

definition processMedia ::
  "collaborators \<Rightarrow> 'r api \<Rightarrow> document \<Rightarrow> parsedContent \<Rightarrow> page \<Rightarrow> 'r world
     \<Rightarrow> (error + unit) \<times> 'r world" where
  "processMedia k a doc parsed result w =
     (case parseMarkdown k doc (Some (page_id result)) of
        Inl e \<Rightarrow> (Inl e, w)
      | Inr finalParsed \<Rightarrow>
          (case processImages k (page_id result) finalParsed of
             Inl e \<Rightarrow> (Inl e, w)
           | Inr contentWithImages \<Rightarrow>
               if contentWithImages \<noteq> pc_htmlContent parsed \<or> pc_mermaidProcessed finalParsed > 0
               then
                 (case updatePage a (page_id result) (page_title result)
                         (convertToConfluenceFormat k contentWithImages)
                         (orOne (page_version result) + 1) w of
                    (Inl e, w1) \<Rightarrow> (Inl e, w1)
                  | (Inr p, w1) \<Rightarrow> (Inr (), w1))
               else (Inr (), w)))"

text \<open>
  The body of the \<open>try\<close> of one document once it is known to need a sync and the run is not a
  dry run. It gives whether the page is new, or the error that the \<open>catch\<close> of the loop gets.
\<close>

definition syncDocument ::
  "collaborators \<Rightarrow> 'r api \<Rightarrow> (string \<rightharpoonup> string option) \<Rightarrow> string option \<Rightarrow> document
     \<Rightarrow> 'r world \<times> syncState \<Rightarrow> (error + bool) \<times> 'r world \<times> syncState" where
  "syncDocument k a hierarchyMap parentId doc ws =
     (case parseMarkdown k doc None of
        Inl e \<Rightarrow> (Inl e, ws)
      | Inr parsed \<Rightarrow>
          (let documentParentId =
                 (if doc_category doc \<noteq> []
                  then (case hierarchyMap (doc_category doc) of Some p \<Rightarrow> p | None \<Rightarrow> None)
                  else parentId)
           in case createOrUpdatePage a
                     \<lparr>pd_title = doc_title doc, pd_content = pc_content parsed,
                      pd_parentId = documentParentId\<rparr> (fst ws) of
                (Inl e, w1) \<Rightarrow> (Inl e, w1, snd ws)
              | (Inr result, w1) \<Rightarrow>
                  (let isNewPage = (page_version result = Some 1)
                   in case (if hasImages doc \<or> hasMermaid doc
                            then processMedia k a doc parsed result w1
                            else (Inr (), w1)) of
                        (Inl e, w2) \<Rightarrow> (Inl e, w2, snd ws)
                      | (Inr u, w2) \<Rightarrow>
                          (Inr isNewPage, w2,
                           setPageState (snd ws) (doc_relativePath doc)
                             \<lparr>confluenceId = Some (page_id result), pi_title = doc_title doc,
                              pi_category = doc_category doc,
                              pi_lastModified = doc_lastModified doc,
                              pi_parentId = documentParentId, pi_version = None\<rparr>))))"

text \<open>Step 9 of \<open>syncDocs\<close>: the loop over the documents, with its \<open>try\<close> and \<open>catch\<close>.\<close>

fun processDocuments ::
  "collaborators \<Rightarrow> 'r api \<Rightarrow> bool \<Rightarrow> (string \<rightharpoonup> string option) \<Rightarrow> string option
     \<Rightarrow> document list \<Rightarrow> stats \<Rightarrow> 'r world \<times> syncState \<Rightarrow> stats \<times> 'r world \<times> syncState" where
  "processDocuments k a dryRun hierarchyMap parentId [] s ws = (s, ws)"
| "processDocuments k a dryRun hierarchyMap parentId (doc # rest) s ws =
     (if \<not> dryRun \<and> \<not> needsSync (snd ws) (doc_relativePath doc) (doc_lastModified doc)
      then processDocuments k a dryRun hierarchyMap parentId rest (s\<lparr>skipped := skipped s + 1\<rparr>) ws
      else if dryRun
      then processDocuments k a dryRun hierarchyMap parentId rest (s\<lparr>processed := processed s + 1\<rparr>) ws
      else
        (case syncDocument k a hierarchyMap parentId doc ws of
           (Inl e, ws1) \<Rightarrow>
             processDocuments k a dryRun hierarchyMap parentId rest (s\<lparr>failed := failed s + 1\<rparr>) ws1
         | (Inr isNewPage, ws1) \<Rightarrow>
             processDocuments k a dryRun hierarchyMap parentId rest
               ((if isNewPage then s\<lparr>created := created s + 1\<rparr> else s\<lparr>updated := updated s + 1\<rparr>)
                  \<lparr>processed := processed (if isNewPage then s\<lparr>created := created s + 1\<rparr>
                                            else s\<lparr>updated := updated s + 1\<rparr>) + 1\<rparr>)
               ws1))"

definition getRootPage :: "'r api \<Rightarrow> config \<Rightarrow> 'r \<Rightarrow> page option" where
  "getRootPage a cfg r =
     (if \<not> truthy (rootPageTitle cfg) then None
      else api_findPageByTitle a r (the (rootPageTitle cfg)))"

definition zeroStats :: stats where
  "zeroStats = \<lparr>processed = 0, created = 0, updated = 0, skipped = 0, failed = 0\<rparr>"

definition summaryOf :: "stats \<Rightarrow> summary" where
  "summaryOf s =
     \<lparr>sum_processed = processed s, sum_created = created s, sum_updated = updated s,
      sum_skipped = skipped s, sum_failed = Some (failed s)\<rparr>"

text \<open>
  \<open>syncDocs\<close> from the scanned documents on: the configuration and the scan are inputs. \<open>Inl\<close>
  is the error the command rethrows, \<open>Inr\<close> the summary it prints and returns.
\<close>

definition syncDocs ::
  "collaborators \<Rightarrow> 'r api \<Rightarrow> config \<Rightarrow> bool \<Rightarrow> document list \<Rightarrow> 'r world \<times> syncState
     \<Rightarrow> (error + summary) \<times> 'r world \<times> syncState" where
  "syncDocs k a cfg dryRun documents ws =
     (if length documents = 0
      then (Inr \<lparr>sum_processed = 0, sum_created = 0, sum_updated = 0, sum_skipped = 0,
                 sum_failed = None\<rparr>, ws)
      else if \<not> api_testConnection a (remote (fst ws))
      then (Inl ''Failed to connect to Confluence'', ws)
      else
        (let parentId = (case getRootPage a cfg (remote (fst ws)) of
                           Some rootPage \<Rightarrow> Some (page_id rootPage)
                         | None \<Rightarrow> None)
         in case buildHierarchy a parentId (categoriesOf documents) Map.empty (fst ws) of
              (Inl e, w1) \<Rightarrow> (Inl e, w1, snd ws)
            | (Inr hierarchyMap, w1) \<Rightarrow>
                (case processDocuments k a dryRun hierarchyMap parentId documents zeroStats
                        (w1, snd ws) of
                   (s, w2, st2) \<Rightarrow>
                     if dryRun then (Inr (summaryOf s), w2, st2)
                     else
                       (case saveState k st2 of
                          Some e \<Rightarrow> (Inl e, w2, st2)
                        | None \<Rightarrow>
                            (Inr (summaryOf s), w2,
                             cleanupOrphanedPages st2 (map doc_relativePath documents))))))"

text \<open>
  \<open>syncFile\<close> from the connection test on, for an existing \<open>.md\<close> file that parsed. The second
  pass always runs here, and the version stored is the one of the first response.
\<close>

definition syncFile ::
  "collaborators \<Rightarrow> 'r api \<Rightarrow> config \<Rightarrow> int \<Rightarrow> bool \<Rightarrow> document \<Rightarrow> parsedContent
     \<Rightarrow> 'r world \<times> syncState \<Rightarrow> (error + page option) \<times> 'r world \<times> syncState" where
  "syncFile k a cfg clock dryRun doc parsed ws =
     (if \<not> api_testConnection a (remote (fst ws))
      then (Inl ''Failed to connect to Confluence'', ws)
      else
        (let parentId = (case getRootPage a cfg (remote (fst ws)) of
                           Some rootPage \<Rightarrow> Some (page_id rootPage)
                         | None \<Rightarrow> None)
         in if dryRun then (Inr None, ws)
            else
              (case createOrUpdatePage a
                      \<lparr>pd_title = doc_title doc, pd_content = pc_content parsed,
                       pd_parentId = parentId\<rparr> (fst ws) of
                 (Inl e, w1) \<Rightarrow> (Inl e, w1, snd ws)
               | (Inr result, w1) \<Rightarrow>
                   (case parseMarkdown k doc (Some (page_id result)) of
                      Inl e \<Rightarrow> (Inl e, w1, snd ws)
                    | Inr finalParsed \<Rightarrow>
                        (case processImages k (page_id result) finalParsed of
                           Inl e \<Rightarrow> (Inl e, w1, snd ws)
                         | Inr contentWithImages \<Rightarrow>
                             (case (if contentWithImages \<noteq> pc_htmlContent parsed \<or>
                                       pc_mermaidProcessed finalParsed > 0
                                    then updatePage a (page_id result) (page_title result)
                                           (pc_content finalParsed)
                                           (orOne (page_version result) + 1) w1
                                    else (Inr result, w1)) of
                                (Inl e, w2) \<Rightarrow> (Inl e, w2, snd ws)
                              | (Inr p, w2) \<Rightarrow>
                                  (let st1 = setPageState (snd ws) (doc_relativePath doc)
                                               \<lparr>confluenceId = Some (page_id result),
                                                pi_title = page_title result, pi_category = [],
                                                pi_lastModified = clock, pi_parentId = parentId,
                                                pi_version = Some (orOne (page_version result))\<rparr>
                                   in case saveState k st1 of
                                        Some e \<Rightarrow> (Inl e, w2, st1)
                                      | None \<Rightarrow> (Inr (Some result), w2, st1))))))))"

subsection \<open>Reverse sync\<close>

text \<open>
  The front matter of a file as the \<open>gray-matter\<close> library returns it: a value is a string, or
  anything else, kept as its JSON text. The library and the Markdown conversion of a page are
  parameters; both may throw. The conversion also stores images under the \<open>images\<close> directory
  beside the file, never the Markdown file itself, so it works on the \<open>disk\<close> of images and
  the Markdown files are kept apart.
\<close>

datatype fmValue = FmString string | FmJson string

record reverseEnv =
  frontmatterOf :: "string \<Rightarrow> error + (string \<times> fmValue) list"
  convertToMarkdown :: "string \<Rightarrow> string \<Rightarrow> string \<Rightarrow> disk \<Rightarrow> (error + string) \<times> disk"
  clock :: int

record reverseStats =
  r_processed :: nat
  r_updated :: nat
  r_skipped :: nat

fun frontmatterLine :: "string \<times> fmValue \<Rightarrow> string" where
  "frontmatterLine (key, FmString v) = key @ '': \"'' @ v @ ''\"'' @ nl"
| "frontmatterLine (key, FmJson j) = key @ '': '' @ j @ nl"

definition newFileContent :: "(string \<times> fmValue) list \<Rightarrow> string \<Rightarrow> string" where
  "newFileContent frontmatter markdownContent =
     (if length frontmatter > 0
      then ''---'' @ nl @ concat (map frontmatterLine frontmatter) @ ''---'' @ nl @ nl
      else []) @ markdownContent"

text \<open>
  One pass of the loop of \<open>syncReverse\<close> over the entry \<open>(filePath, pageInfo)\<close> of the state.
  \<open>mdFiles\<close> are the local Markdown files by absolute path and \<open>d\<close> the images. Everything
  after the test of the page identifier is inside the \<open>try\<close> of the loop: whatever throws
  there (the fetch, reading the file, the front matter, the conversion, the write) ends in
  the \<open>catch\<close>, which counts the page as skipped.
\<close>

definition reversePage ::
  "nodeFs \<Rightarrow> reverseEnv \<Rightarrow> 'r api \<Rightarrow> 'r \<Rightarrow> bool \<Rightarrow> string \<times> pageInfo
     \<Rightarrow> reverseStats \<times> (string \<rightharpoonup> string) \<times> disk \<times> syncState
     \<Rightarrow> reverseStats \<times> (string \<rightharpoonup> string) \<times> disk \<times> syncState" where
  "reversePage fs env a r dryRun entry acc =
     (case (entry, acc) of
        ((filePath, info), (s, mdFiles, d, st)) \<Rightarrow>
          if \<not> truthy (confluenceId info) then (s, mdFiles, d, st)
          else
            (case api_getPageById a r (the (confluenceId info)) of
               Inl e \<Rightarrow> (s\<lparr>r_skipped := r_skipped s + 1\<rparr>, mdFiles, d, st)
             | Inr None \<Rightarrow> (s\<lparr>r_skipped := r_skipped s + 1\<rparr>, mdFiles, d, st)
             | Inr (Some confluencePage) \<Rightarrow>
                 (let lastSyncVersion = orOne (pi_version info);
                      currentVersion = orOne (page_version confluencePage)
                  in if currentVersion \<le> lastSyncVersion
                     then (s\<lparr>r_skipped := r_skipped s + 1\<rparr>, mdFiles, d, st)
                     else
                       (let confluenceContent =
                              (case page_body confluencePage of Some b \<Rightarrow> b | None \<Rightarrow> []);
                            absoluteFilePath = fs_resolve fs filePath
                        in case mdFiles absoluteFilePath of
                             None \<Rightarrow> (s\<lparr>r_skipped := r_skipped s + 1\<rparr>, mdFiles, d, st)
                           | Some originalContent \<Rightarrow>
                               if fs_readFails fs absoluteFilePath
                               then (s\<lparr>r_skipped := r_skipped s + 1\<rparr>, mdFiles, d, st)
                               else
                                 (case frontmatterOf env originalContent of
                                    Inl e \<Rightarrow> (s\<lparr>r_skipped := r_skipped s + 1\<rparr>, mdFiles, d, st)
                                  | Inr frontmatter \<Rightarrow>
                                      (case convertToMarkdown env confluenceContent
                                              (the (confluenceId info)) absoluteFilePath d of
                                         (Inl e, d1) \<Rightarrow>
                                           (s\<lparr>r_skipped := r_skipped s + 1\<rparr>, mdFiles, d1, st)
                                       | (Inr markdownContent, d1) \<Rightarrow>
                                           (let newContent = newFileContent frontmatter markdownContent;
                                                s1 = s\<lparr>r_processed := r_processed s + 1\<rparr>
                                            in if dryRun
                                               then (s1\<lparr>r_skipped := r_skipped s1 + 1\<rparr>, mdFiles, d1, st)
                                               else if fs_writeFails fs absoluteFilePath
                                               then (s1\<lparr>r_skipped := r_skipped s1 + 1\<rparr>, mdFiles, d1, st)
                                               else (s1\<lparr>r_updated := r_updated s1 + 1\<rparr>,
                                                     mdFiles(absoluteFilePath \<mapsto> newContent), d1,
                                                     setPageState st filePath
                                                       (info\<lparr>pi_version := Some currentVersion,
                                                              pi_lastModified := clock env\<rparr>)))))))))"

text \<open>
  \<open>syncReverse\<close> from the connection test on. The entries of the state are taken once,
  before the loop.
\<close>

definition syncReverse ::
  "nodeFs \<Rightarrow> reverseEnv \<Rightarrow> collaborators \<Rightarrow> 'r api \<Rightarrow> 'r \<Rightarrow> bool
     \<Rightarrow> (string \<rightharpoonup> string) \<times> disk \<times> syncState
     \<Rightarrow> (error + reverseStats) \<times> (string \<rightharpoonup> string) \<times> disk \<times> syncState" where
  "syncReverse fs env k a r dryRun local =
     (if \<not> api_testConnection a r then (Inl ''Failed to connect to Confluence'', local)
      else if length (snd (snd local)) = 0
      then (Inr \<lparr>r_processed = 0, r_updated = 0, r_skipped = 0\<rparr>, local)
      else
        (case foldl (\<lambda>acc entry. reversePage fs env a r dryRun entry acc)
                (\<lparr>r_processed = 0, r_updated = 0, r_skipped = 0\<rparr>, local) (snd (snd local)) of
           (s, mdFiles, d, st) \<Rightarrow>
             (case saveState k st of
                Some e \<Rightarrow> (Inl e, mdFiles, d, st)
              | None \<Rightarrow> (Inr s, mdFiles, d, st))))"

section \<open>Concrete inputs\<close>

text \<open>A stand-in for the rules of the library on concrete inputs: the content unchanged.\<close>

definition libContent :: "string \<Rightarrow> node \<Rightarrow> string" where
  "libContent content n = content"

definition exTableNoHeader :: node where
  "exTableNoHeader =
     Element ''TABLE'' []
       [Element ''TR'' [] [Element ''TD'' [] [TextNode ''x'']],
        Element ''TR'' [] [Element ''TH'' [] [TextNode ''h'']]]"

definition exTableHeader :: node where
  "exTableHeader =
     Element ''TABLE'' []
       [Element ''TR'' [] [Element ''TH'' [] [TextNode ''H1''], Element ''TH'' [] [TextNode ''H2'']],
        Element ''TR'' [] [Element ''TD'' [] [TextNode ''x''], Element ''TD'' [] [TextNode '' y '']]]"

definition exInfoMacro :: "node list \<Rightarrow> macro" where
  "exInfoMacro body =
     \<lparr>macroName = ''info'', titleParam = ''Note Title'', languageParam = [],
      plainTextBody = [], richTextBody = body\<rparr>"

definition exNoteMacro :: "node list \<Rightarrow> macro" where
  "exNoteMacro body =
     \<lparr>macroName = ''note'', titleParam = ''Note Title'', languageParam = [],
      plainTextBody = [], richTextBody = body\<rparr>"

definition exDiagramImg :: node where
  "exDiagramImg =
     Element ''IMG'' [(''src'', ''images/mermaid-diagram-1.svg''), (''alt'', ''mermaid-diagram-1'')] []"





definition exDiskEmpty :: disk where
  "exDiskEmpty = \<lparr>files = Map.empty, requested = []\<rparr>"

text \<open>
  A file system for concrete runs: paths are joined with a slash and nothing fails; and the
  same one in which every write fails.
\<close>

definition exFs :: nodeFs where
  "exFs =
     \<lparr>fs_join = (\<lambda>dir name. dir @ ''/'' @ name),
      fs_dirname = (\<lambda>path. join ''/'' (butlast (splitOn CHR ''/'' path))),
      fs_extname = (\<lambda>name. if CHR ''.'' \<in> set name
                             then CHR ''.'' # rev (takeWhile (\<lambda>c. c \<noteq> CHR ''.'') (rev name))
                             else []),
      fs_resolve = (\<lambda>path. path),
      fs_statFails = (\<lambda>path. False),
      fs_readFails = (\<lambda>path. False),
      fs_writeFails = (\<lambda>path. False)\<rparr>"

definition exFsReadOnly :: nodeFs where
  "exFsReadOnly = exFs\<lparr>fs_writeFails := (\<lambda>path. True)\<rparr>"



text \<open>Which calls of the log are page creations, and which are hierarchy lookups.\<close>

fun isCreatePage :: "call \<Rightarrow> bool" where
  "isCreatePage (CreatePage t p) = True"
| "isCreatePage c = False"

fun isFindOrCreateParentPage :: "call \<Rightarrow> bool" where
  "isFindOrCreateParentPage (FindOrCreateParentPage c p) = True"
| "isFindOrCreateParentPage c = False"

definition exRootPage :: page where
  "exRootPage = \<lparr>page_id = ''100'', page_title = ''Docs'', page_version = Some 1, page_body = Some []\<rparr>"

text \<open>
  A wiki that already has a page titled \<open>B\<close>, directly under the root page and with a
  content of its own.
\<close>

definition exUsedWorld :: "store world" where
  "exUsedWorld =
     \<lparr>remote =
        \<lparr>stored =
           [(exRootPage, None),
            (\<lparr>page_id = ''150'', page_title = ''B'', page_version = Some 4,
              page_body = Some ''<p>Release notes</p>''\<rparr>,
             Some ''100'')],
         freshIds = [''101'', ''102'', ''103'', ''104'', ''105'']\<rparr>,
      calls = []\<rparr>"

definition exFreshWorld :: "store world" where
  "exFreshWorld =
     \<lparr>remote = \<lparr>stored = [(exRootPage, None)], freshIds = [''101'', ''102'', ''103'', ''104'', ''105'']\<rparr>,
      calls = []\<rparr>"

definition exDoc :: "string \<Rightarrow> string \<Rightarrow> string \<Rightarrow> document" where
  "exDoc path title category =
     \<lparr>doc_relativePath = path, doc_title = title, doc_category = category, doc_content = ''text'',
      doc_lastModified = 5, hasImages = False, hasMermaid = False\<rparr>"

definition exCollaborators :: collaborators where
  "exCollaborators =
     \<lparr>parseMarkdown = (\<lambda>doc pageId. if doc_title doc = ''Bad'' then Inl ''cannot parse''
         else Inr \<lparr>pc_content = doc_content doc, pc_htmlContent = doc_content doc, pc_mermaidProcessed = 0\<rparr>),
      processImages = (\<lambda>pageId parsed. Inr (pc_htmlContent parsed)),
      convertToConfluenceFormat = (\<lambda>html. html),
      saveState = (\<lambda>st. None)\<rparr>"

definition exConfig :: config where
  "exConfig = \<lparr>rootPageTitle = Some ''Docs'', spaceKey = ''DOC''\<rparr>"

definition exDocuments :: "document list" where
  "exDocuments = [exDoc ''docs/one.md'' ''One'' [], exDoc ''docs/bad.md'' ''Bad'' [], exDoc ''docs/guides/two.md'' ''Two'' ''guides'']"


section \<open>The reference index (resolve)\<close>

text \<open>
  Modelled from the spec: reference-processor.js, which resolves the internal links, is not
  among the sources. The spec (4.1) gives \<open>resolve(linkToken, sourceDocumentPath)\<close>: the token
  may end in an \<open>#anchor\<close>, which is kept verbatim; its path is normalised against the
  directory of the source document (relative tokens) or stripped of a known documentation root
  (absolute tokens); the record of that path is looked up, then, failing that, a record with
  the same file-name stem (case-insensitive, numeric ordering prefixes ignored); the output is
  \<open>{baseUrl}/wiki/spaces/{spaceKey}/pages/{pageId}/{urlEncodedTitle}{#anchor}\<close>, or not found.
  The index is the table of sync records. The URL encoding of a title is a parameter.
\<close>

record linkConfig =
  lc_baseUrl :: string
  lc_spaceKey :: string
  lc_docRoots :: "string list"
  lc_encodeTitle :: "string \<Rightarrow> string"

definition tokenPath :: "string \<Rightarrow> string" where
  "tokenPath linkToken = takeWhile (\<lambda>c. c \<noteq> CHR ''#'') linkToken"

definition tokenAnchor :: "string \<Rightarrow> string" where
  "tokenAnchor linkToken = dropWhile (\<lambda>c. c \<noteq> CHR ''#'') linkToken"

text \<open>The segments of a path with \<open>.\<close> and empty segments dropped and \<open>..\<close> resolved.\<close>

fun normalizeSegments :: "string list \<Rightarrow> string list \<Rightarrow> string list" where
  "normalizeSegments done [] = done"
| "normalizeSegments done (seg # rest) =
     (if seg = [] \<or> seg = ''.'' then normalizeSegments done rest
      else if seg = ''..'' then normalizeSegments (butlast done) rest
      else normalizeSegments (done @ [seg]) rest)"

definition canonicalPath :: "linkConfig \<Rightarrow> string \<Rightarrow> string \<Rightarrow> string" where
  "canonicalPath cfg path sourceDocumentPath =
     (if startsWith path ''/''
      then (case normalizeSegments [] (splitOn CHR ''/'' path) of
              [] \<Rightarrow> []
            | root # rest \<Rightarrow>
                if root \<in> set (lc_docRoots cfg) then join ''/'' rest else join ''/'' (root # rest))
      else join ''/''
             (normalizeSegments (butlast (normalizeSegments [] (splitOn CHR ''/'' sourceDocumentPath)))
                (splitOn CHR ''/'' path)))"

text \<open>
  The stem of a path: its last segment without the extension and without a numeric ordering
  prefix such as \<open>01-\<close>, in lower case.
\<close>

definition dropOrderPrefix :: "string \<Rightarrow> string" where
  "dropOrderPrefix name =
     (let digits = takeWhile (\<lambda>c. c \<in> set ''0123456789'') name;
          rest = dropWhile (\<lambda>c. c \<in> set ''0123456789'') name
      in if digits \<noteq> [] \<and> (startsWith rest ''-'' \<or> startsWith rest ''_'') then tl rest else name)"

definition stem :: "string \<Rightarrow> string" where
  "stem path =
     map toLowerCase
       (dropOrderPrefix (takeWhile (\<lambda>c. c \<noteq> CHR ''.'') (last (splitOn CHR ''/'' path))))"

text \<open>A record that has a page: the target of a link, the page identifier and the title.\<close>

definition targetOf :: "pageInfo \<Rightarrow> (string \<times> string) option" where
  "targetOf info =
     (if truthy (confluenceId info) then Some (the (confluenceId info), pi_title info) else None)"

definition lookupTarget :: "syncState \<Rightarrow> string \<Rightarrow> (string \<times> string) option" where
  "lookupTarget index path =
     (case map_of index path of
        Some info \<Rightarrow> targetOf info
      | None \<Rightarrow> None)"

definition fuzzyTarget :: "syncState \<Rightarrow> string \<Rightarrow> (string \<times> string) option" where
  "fuzzyTarget index path =
     (case List.find (\<lambda>(p, info). stem p = stem path \<and> targetOf info \<noteq> None) index of
        Some (p, info) \<Rightarrow> targetOf info
      | None \<Rightarrow> None)"

definition pageUrl :: "linkConfig \<Rightarrow> string \<times> string \<Rightarrow> string \<Rightarrow> string" where
  "pageUrl cfg target anchor =
     lc_baseUrl cfg @ ''/wiki/spaces/'' @ lc_spaceKey cfg @ ''/pages/'' @ fst target @ ''/'' @
     lc_encodeTitle cfg (snd target) @ anchor"

definition resolve :: "linkConfig \<Rightarrow> syncState \<Rightarrow> string \<Rightarrow> string \<Rightarrow> string option" where
  "resolve cfg index linkToken sourceDocumentPath =
     (let path = canonicalPath cfg (tokenPath linkToken) sourceDocumentPath
      in case lookupTarget index path of
           Some target \<Rightarrow> Some (pageUrl cfg target (tokenAnchor linkToken))
         | None \<Rightarrow>
             (case fuzzyTarget index path of
                Some target \<Rightarrow> Some (pageUrl cfg target (tokenAnchor linkToken))
              | None \<Rightarrow> None))"


section \<open>Concrete inputs for the sync state and the links\<close>

text \<open>
  What the claims about the sync state ask of an operation that takes the state \<open>st\<close> to
  \<open>st'\<close>: at most one record for a path, and no recorded version lower than before.
\<close>

definition keepsRecords :: "syncState \<Rightarrow> syncState \<Rightarrow> bool" where
  "keepsRecords st st' =
     (distinct (map fst st') \<and> (\<forall>q. recordedVersion st q \<le> recordedVersion st' q))"

definition exPageInfo :: pageInfo where
  "exPageInfo =
     \<lparr>confluenceId = Some ''201'', pi_title = ''Intro'', pi_category = [], pi_lastModified = 5,
      pi_parentId = None, pi_version = Some 1\<rparr>"

definition exRemoteEdited :: store where
  "exRemoteEdited =
     \<lparr>stored = [(\<lparr>page_id = ''201'', page_title = ''Intro'', page_version = Some 2,
                   page_body = Some ''<p>new</p>''\<rparr>, None)],
      freshIds = []\<rparr>"

definition exReverseEnv :: reverseEnv where
  "exReverseEnv =
     \<lparr>frontmatterOf = (\<lambda>original. Inr [(''title'', FmString ''Intro'')]),
      convertToMarkdown = (\<lambda>html pageId path d. (Inr ''new'', d)),
      clock = 9\<rparr>"

definition exMdFiles :: "string \<rightharpoonup> string" where
  "exMdFiles = [''docs/intro.md'' \<mapsto> ''old'']"

definition zeroReverseStats :: reverseStats where
  "zeroReverseStats = \<lparr>r_processed = 0, r_updated = 0, r_skipped = 0\<rparr>"

definition exLinkConfig :: linkConfig where
  "exLinkConfig =
     \<lparr>lc_baseUrl = ''https://wiki.example'', lc_spaceKey = ''DOC'', lc_docRoots = [''docs''],
      lc_encodeTitle = map (\<lambda>c. if c = CHR '' '' then CHR ''+'' else c)\<rparr>"

definition exIndex :: syncState where
  "exIndex =
     [(''docs/intro.md'', exPageInfo),
      (''docs/guides/01-setup.md'', exPageInfo\<lparr>confluenceId := Some ''202'', pi_title := ''Set Up''\<rparr>)]"


section \<open>Properties of the table rule\<close>

lemma dataRowsFrom_drop:
  "dataRowsFrom conv rows i = concat (map (dataLine conv) (drop i rows))"
proof (induction conv rows i rule: dataRowsFrom.induct)
  case (1 conv rows i)
  show ?case
  proof (cases "i < length rows")
    case True
    then have "drop i rows = rows ! i # drop (Suc i) rows"
      by (simp add: Cons_nth_drop_Suc)
    with True 1 show ?thesis
      by (subst dataRowsFrom.simps) simp
  next
    case False
    then show ?thesis
      by (subst dataRowsFrom.simps) simp
  qed
qed


text \<open>
  C7 (as amended). The header row is made of the header cells of the first row and is followed
  by a separator row. If the first row has no header cells, nothing but data rows is emitted:
  no separator row, and the rows are taken from the first one on. In both cases a row is
  emitted as a data row when it has at least one data cell; a row with none adds nothing.
\<close>

theorem confluenceTables_rows:
  assumes "rows = querySelectorAll n ''TR''" and "rows \<noteq> []"
    and "headerCells = querySelectorAll (hd rows) ''TH''"
  shows "(headerCells \<noteq> [] \<longrightarrow>
            confluenceTables_replacement conv n =
              nl @ headerLine conv headerCells @ separatorLine headerCells @
              concat (map (dataLine conv) (tl rows)) @ nl) \<and>
         (headerCells = [] \<longrightarrow>
            confluenceTables_replacement conv n = nl @ concat (map (dataLine conv) rows) @ nl) \<and>
         (\<forall>row. dataLine conv row =
            (if querySelectorAll row ''TD'' = [] then []
             else ''| '' @
                  join '' | '' (map (\<lambda>cell. trim (conv (childNodes cell))) (querySelectorAll row ''TD'')) @
                  '' |'' @ nl))"
proof -
  from assms(2) have hd0: "rows ! 0 = hd rows"
    by (simp add: hd_conv_nth)
  from assms(2) have d1: "drop (Suc 0) rows = tl rows"
    by (simp add: drop_Suc)
  have withHeader: "headerCells \<noteq> [] \<longrightarrow>
      confluenceTables_replacement conv n =
        nl @ headerLine conv headerCells @ separatorLine headerCells @
        concat (map (dataLine conv) (tl rows)) @ nl"
    using assms hd0 d1
    by (simp add: confluenceTables_replacement_def Let_def dataRowsFrom_drop)
  have noHeader: "headerCells = [] \<longrightarrow>
      confluenceTables_replacement conv n = nl @ concat (map (dataLine conv) rows) @ nl"
    using assms hd0
    by (simp add: confluenceTables_replacement_def Let_def dataRowsFrom_drop)
  have line: "\<forall>row. dataLine conv row =
      (if querySelectorAll row ''TD'' = [] then []
       else ''| '' @
            join '' | '' (map (\<lambda>cell. trim (conv (childNodes cell))) (querySelectorAll row ''TD'')) @
            '' |'' @ nl)"
    by (simp add: dataLine_def Let_def)
  from withHeader noHeader line show ?thesis
    by blast
qed

theorem confluenceTables_rows_witness:
  "confluenceTables_replacement textOnly exTableHeader =
     nl @ ''| H1 | H2 |'' @ nl @ ''| --- | --- |'' @ nl @ ''| x | y |'' @ nl @ nl"
proof -
  have rows: "querySelectorAll exTableHeader ''TR'' =
      [Element ''TR'' [] [Element ''TH'' [] [TextNode ''H1''], Element ''TH'' [] [TextNode ''H2'']],
       Element ''TR'' [] [Element ''TD'' [] [TextNode ''x''], Element ''TD'' [] [TextNode '' y '']]]"
    by (simp add: exTableHeader_def querySelectorAll_def)
  have ne: "querySelectorAll exTableHeader ''TR'' \<noteq> []"
    by (simp add: rows)
  note t = confluenceTables_rows [OF refl ne refl, of textOnly, unfolded rows]
  show ?thesis
    using t
    by (simp add: querySelectorAll_def headerLine_def separatorLine_def dataLine_def
        textOnly_def trim_def isSpace_def Let_def)
qed

text \<open>
  C7 as stated fails: in this table the first row has no header cells and the second row has
  only a header cell, and the second row is not emitted. Of two rows one data row comes out.
\<close>

theorem confluenceTables_rows_counterexample:
  "querySelectorAll (hd (querySelectorAll exTableNoHeader ''TR'')) ''TH'' = [] \<and>
   length (querySelectorAll exTableNoHeader ''TR'') = 2 \<and>
   confluenceTables_replacement textOnly exTableNoHeader = nl @ ''| x |'' @ nl @ nl"
  by (simp add: exTableNoHeader_def querySelectorAll_def confluenceTables_replacement_def
      dataRowsFrom_drop dataLine_def textOnly_def trim_def isSpace_def Let_def)

section \<open>Properties of the admonition and diagram rules\<close>

lemma note_macro_admonition:
  "replacementFor conv lib content (preprocessMacro (exNoteMacro body)) =
     nl @ '':::note Note Title'' @ nl @ conv body @ nl @ '':::'' @ nl @ nl"
proof -
  have c: "classList (preprocessMacro (exNoteMacro body)) = [''confluence-note-macro'']"
    by (simp add: classList_def preprocessMacro_def exNoteMacro_def)
  have n: "nodeName (preprocessMacro (exNoteMacro body)) = ''DIV''"
    by (simp add: preprocessMacro_def exNoteMacro_def)
  have f: "forNode (preprocessMacro (exNoteMacro body)) = ConfluenceAdmonitions"
    by (simp add: forNode_def addedRules_def n confluenceLinks_filter_def
        mermaidDiagrams_filter_def confluenceImages_filter_def confluenceTables_filter_def
        confluenceAdmonitions_filter_def classList_contains_def c)
  have t: "querySelectorClass (preprocessMacro (exNoteMacro body)) ''confluence-information-macro-title'' =
      Some (Element ''DIV'' [(''class'', ''confluence-information-macro-title'')] [TextNode ''Note Title''])"
    by (simp add: preprocessMacro_def exNoteMacro_def querySelectorClass_def
        classList_contains_def classList_def)
  have b: "querySelectorClass (preprocessMacro (exNoteMacro body)) ''confluence-information-macro-body'' =
      Some (Element ''DIV'' [(''class'', ''confluence-information-macro-body'')] body)"
    by (simp add: preprocessMacro_def exNoteMacro_def querySelectorClass_def
        classList_contains_def classList_def)
  show ?thesis
    by (simp add: replacementFor_def f confluenceAdmonitions_replacement_def
        classList_contains_def c t b)
qed

text \<open>
  C8. The info macro with the title "Note Title" is rewritten by \<open>preprocessMacro\<close> to a
  \<open>div\<close> of class \<open>confluence-info-macro\<close>. The filter of the admonition rule asks for
  \<open>confluence-information-macro\<close>, so it rejects the node, whatever the body: the node goes to
  the rules of the library and no \<open>:::info\<close> block is written. (The note macro, whose class
  the filter knows, gets its block: \<open>note_macro_admonition\<close>.)
\<close>

theorem info_macro_not_admonition:
  "confluenceAdmonitions_filter (preprocessMacro (exInfoMacro body)) = False \<and>
   forNode (preprocessMacro (exInfoMacro body)) = LibraryRule \<and>
   replacementFor conv lib content (preprocessMacro (exInfoMacro body)) =
     lib content (preprocessMacro (exInfoMacro body))"
proof -
  have c: "classList (preprocessMacro (exInfoMacro body)) = [''confluence-info-macro'']"
    by (simp add: classList_def preprocessMacro_def exInfoMacro_def)
  have n: "nodeName (preprocessMacro (exInfoMacro body)) = ''DIV''"
    by (simp add: preprocessMacro_def exInfoMacro_def)
  have a: "confluenceAdmonitions_filter (preprocessMacro (exInfoMacro body)) = False"
    by (simp add: confluenceAdmonitions_filter_def classList_contains_def c)
  have f: "forNode (preprocessMacro (exInfoMacro body)) = LibraryRule"
    by (simp add: forNode_def addedRules_def a n confluenceLinks_filter_def
        mermaidDiagrams_filter_def confluenceImages_filter_def confluenceTables_filter_def
        confluenceCodeBlock_filter_def classList_contains_def c)
  from a f show ?thesis
    by (simp add: replacementFor_def)
qed

text \<open>
  C9. An \<open>img\<close> element whose \<open>alt\<close> text contains the marker \<open>mermaid-diagram\<close> is handled
  by the diagram rule, which comes before the image rule, and is replaced by the placeholder
  fence. The placeholder is one fixed text: it takes nothing from the image, and it says that
  the conversion back to diagram source is not supported.
\<close>

theorem mermaid_placeholder:
  assumes "nodeName n = ''IMG''" and "getAttribute n ''alt'' = Some a"
    and "includes_str a ''mermaid-diagram''"
  shows "forNode n = MermaidDiagrams \<and>
         replacementFor conv lib content n = mermaidPlaceholder \<and>
         mermaidPlaceholder =
           nl @ ''```mermaid'' @ nl @ ''// Original Mermaid diagram was here'' @ nl @
           ''// Automatic conversion back to Mermaid code is not supported'' @ nl @
           ''```'' @ nl @ nl"
proof -
  from assms(3) have ne: "a \<noteq> []"
    by (cases a) auto
  have f: "forNode n = MermaidDiagrams"
    using assms ne
    by (simp add: forNode_def addedRules_def confluenceLinks_filter_def mermaidDiagrams_filter_def)
  then show ?thesis
    by (simp add: replacementFor_def mermaidDiagrams_replacement_def mermaidPlaceholder_def)
qed

theorem mermaid_placeholder_witness:
  "forNode exDiagramImg = MermaidDiagrams \<and>
   replacementFor textOnly libContent [] exDiagramImg = mermaidPlaceholder"
proof -
  have h1: "nodeName exDiagramImg = ''IMG''"
    by (simp add: exDiagramImg_def)
  have h2: "getAttribute exDiagramImg ''alt'' = Some ''mermaid-diagram-1''"
    by (simp add: exDiagramImg_def)
  have h3: "includes_str ''mermaid-diagram-1'' ''mermaid-diagram''"
    by simp
  show ?thesis
    using mermaid_placeholder [OF h1 h2 h3, of textOnly libContent "[]"]
    by simp
qed

section \<open>Properties of the attachment download\<close>










section \<open>Properties of the hierarchy and of the document loop\<close>

lemma processDocuments_dryRun:
  "processDocuments k a True hierarchyMap parentId documents s ws =
     (s\<lparr>processed := processed s + length documents\<rparr>, ws)"
  by (induction documents arbitrary: s) simp_all

lemma processDocuments_append:
  "processDocuments k a dryRun hierarchyMap parentId (xs @ ys) s ws =
     (case processDocuments k a dryRun hierarchyMap parentId xs s ws of
        (s1, ws1) \<Rightarrow> processDocuments k a dryRun hierarchyMap parentId ys s1 ws1)"
  by (induction xs arbitrary: s ws) (auto split: prod.splits sum.splits)

lemma processDocuments_total_sync:
  "processed (fst (processDocuments k a False hierarchyMap parentId documents s ws)) +
   skipped (fst (processDocuments k a False hierarchyMap parentId documents s ws)) +
   failed (fst (processDocuments k a False hierarchyMap parentId documents s ws)) =
     processed s + skipped s + failed s + length documents"
proof (induction documents arbitrary: s ws)
  case Nil
  then show ?case by simp
next
  case (Cons doc rest)
  show ?case
    by (simp add: Cons split: prod.splits sum.splits)
qed

lemma processDocuments_total:
  "processed (fst (processDocuments k a dryRun hierarchyMap parentId documents s ws)) +
   skipped (fst (processDocuments k a dryRun hierarchyMap parentId documents s ws)) +
   failed (fst (processDocuments k a dryRun hierarchyMap parentId documents s ws)) =
     processed s + skipped s + failed s + length documents"
  by (cases dryRun) (simp_all add: processDocuments_dryRun processDocuments_total_sync)

lemma processDocuments_created_sync:
  "processDocuments k a False hierarchyMap parentId documents s ws = (s', ws') \<Longrightarrow>
     created s' + updated s' + processed s = created s + updated s + processed s'"
proof (induction documents arbitrary: s ws)
  case Nil
  then show ?case by simp
next
  case (Cons doc rest)
  from Cons.prems show ?case
    by (auto split: if_splits prod.splits sum.splits dest!: Cons.IH)
qed

lemma calls_createOrUpdatePage:
  "filter isFindOrCreateParentPage (calls (snd (createOrUpdatePage a pd w))) =
     filter isFindOrCreateParentPage (calls w)"
  by (simp add: createOrUpdatePage_def updatePage_def createPage_def logCall_def wrapSyncError_def
      Let_def split: option.splits prod.splits sum.splits)

lemma calls_walkSegments:
  "filter isFindOrCreateParentPage (calls (snd (walkSegments a segs p path w))) =
     filter isFindOrCreateParentPage (calls w)"
proof (induction segs arbitrary: p path w)
  case Nil
  then show ?case by simp
next
  case (Cons seg rest)
  define path1 where "path1 = (if path \<noteq> [] then path @ ''/'' @ seg else seg)"
  define pd where "pd = \<lparr>pd_title = formatCategoryTitle seg,
      pd_content = parentPageContent (formatCategoryTitle seg) path1, pd_parentId = p\<rparr>"
  show ?case
  proof (cases "findPageByTitleAndParent a (formatCategoryTitle seg) p (remote w)")
    case (Some pg)
    then show ?thesis
      by (simp add: Cons Let_def split del: if_split)
  next
    case None
    obtain r w1 where c: "createOrUpdatePage a pd w = (r, w1)"
      by (cases "createOrUpdatePage a pd w") auto
    have k: "filter isFindOrCreateParentPage (calls w1) = filter isFindOrCreateParentPage (calls w)"
      using calls_createOrUpdatePage [of a pd w] c by simp
    show ?thesis
      using c k
      by (cases r) (simp_all add: None Cons Let_def pd_def path1_def split del: if_split)
  qed
qed

lemma calls_findOrCreateParentPage:
  "filter isFindOrCreateParentPage (calls (snd (findOrCreateParentPage a category parentId w))) =
     filter isFindOrCreateParentPage (calls w) @ [FindOrCreateParentPage category parentId]"
  by (simp add: findOrCreateParentPage_def Let_def calls_walkSegments logCall_def)

lemma calls_buildHierarchy:
  "distinct categories \<Longrightarrow> set categories \<inter> dom hierarchyMap = {} \<Longrightarrow>
   buildHierarchy a parentId categories hierarchyMap w = (Inr hm, w') \<Longrightarrow>
     filter isFindOrCreateParentPage (calls w') =
       filter isFindOrCreateParentPage (calls w) @
       map (\<lambda>category. FindOrCreateParentPage category parentId) categories"
proof (induction categories arbitrary: hierarchyMap w)
  case Nil
  then show ?case by simp
next
  case (Cons category rest)
  from Cons.prems(2) have fresh: "hierarchyMap category = None"
    by auto
  obtain r w1 where f: "findOrCreateParentPage a category parentId w = (r, w1)"
    by (cases "findOrCreateParentPage a category parentId w") auto
  have k: "filter isFindOrCreateParentPage (calls w1) =
      filter isFindOrCreateParentPage (calls w) @ [FindOrCreateParentPage category parentId]"
    using calls_findOrCreateParentPage [of a category parentId w] f by simp
  show ?case
  proof (cases r)
    case (Inl e)
    with Cons.prems(3) fresh f show ?thesis by simp
  next
    case (Inr categoryParentId)
    with Cons.prems(3) fresh f
    have run: "buildHierarchy a parentId rest (hierarchyMap(category \<mapsto> categoryParentId)) w1 = (Inr hm, w')"
      by simp
    have d: "distinct rest" using Cons.prems(1) by simp
    have i: "set rest \<inter> dom (hierarchyMap(category \<mapsto> categoryParentId)) = {}"
      using Cons.prems(1,2) by auto
    from Cons.IH [OF d i run] k show ?thesis by simp
  qed
qed

lemma set_uniqFrom: "set (uniqFrom seen xs) = set xs - set seen"
  by (induction xs arbitrary: seen) auto

lemma distinct_uniqFrom: "distinct (uniqFrom seen xs)"
  by (induction xs arbitrary: seen) (auto simp: set_uniqFrom)

lemma distinct_categoriesOf: "distinct (categoriesOf documents)"
  by (simp add: categoriesOf_def distinct_uniqFrom)

text \<open>
  C10. In a dry run that gets as far as the documents, the loop over the documents makes no
  call at all: it leaves the wiki, the log of calls and the sync state as they were and only
  counts each document as processed. The hierarchy step before it runs all the same:
  \<open>findOrCreateParentPage\<close> is called once for every distinct category, in order, so the state
  of the wiki after the dry run is the one the hierarchy step left, container pages it has
  created included (the witness shows one being created).
\<close>

theorem syncDocs_dryRun:
  assumes "documents \<noteq> []" and "api_testConnection a (remote w)"
    and "parentId = (case getRootPage a cfg (remote w) of
                       Some rootPage \<Rightarrow> Some (page_id rootPage) | None \<Rightarrow> None)"
    and "buildHierarchy a parentId (categoriesOf documents) Map.empty w = (Inr hierarchyMap, w1)"
  shows "syncDocs k a cfg True documents (w, st) =
           (Inr (summaryOf (zeroStats\<lparr>processed := length documents\<rparr>)), w1, st) \<and>
         processDocuments k a True hierarchyMap parentId documents zeroStats (w1, st) =
           (zeroStats\<lparr>processed := length documents\<rparr>, w1, st) \<and>
         filter isFindOrCreateParentPage (calls w1) =
           filter isFindOrCreateParentPage (calls w) @
           map (\<lambda>category. FindOrCreateParentPage category parentId) (categoriesOf documents)"
proof -
  have loop: "processDocuments k a True hierarchyMap parentId documents zeroStats (w1, st) =
      (zeroStats\<lparr>processed := length documents\<rparr>, w1, st)"
    by (simp add: processDocuments_dryRun zeroStats_def)
  have run: "syncDocs k a cfg True documents (w, st) =
      (Inr (summaryOf (zeroStats\<lparr>processed := length documents\<rparr>)), w1, st)"
    using assms loop by (simp add: syncDocs_def Let_def)
  have log: "filter isFindOrCreateParentPage (calls w1) =
      filter isFindOrCreateParentPage (calls w) @
      map (\<lambda>category. FindOrCreateParentPage category parentId) (categoriesOf documents)"
    using calls_buildHierarchy [OF distinct_categoriesOf _ assms(4)] by simp
  from run loop log show ?thesis by simp
qed

theorem syncDocs_dryRun_witness:
  "fst (syncDocs exCollaborators storeApi exConfig True exDocuments (exFreshWorld, [])) =
     Inr \<lparr>sum_processed = 3, sum_created = 0, sum_updated = 0, sum_skipped = 0, sum_failed = Some 0\<rparr> \<and>
   calls (fst (snd (syncDocs exCollaborators storeApi exConfig True exDocuments (exFreshWorld, [])))) =
     [FindOrCreateParentPage ''guides'' (Some ''100''), CreateOrUpdatePage ''Guides'',
      CreatePage ''Guides'' (Some ''100'')] \<and>
   map (\<lambda>(p, parent). (page_id p, page_title p, parent))
     (stored (remote (fst (snd (syncDocs exCollaborators storeApi exConfig True exDocuments
        (exFreshWorld, [])))))) =
     [(''100'', ''Docs'', None), (''101'', ''Guides'', Some ''100'')]"
proof -
  have ne: "exDocuments \<noteq> []"
    by (simp add: exDocuments_def)
  have conn: "api_testConnection storeApi (remote exFreshWorld)"
    by (simp add: storeApi_def)
  have p: "(case getRootPage storeApi exConfig (remote exFreshWorld) of
         Some rootPage \<Rightarrow> Some (page_id rootPage) | None \<Rightarrow> None) = Some ''100''"
    by code_simp
  have cats: "categoriesOf exDocuments = [''guides'']"
    by code_simp
  have ok: "\<not> isl (fst (buildHierarchy storeApi (Some ''100'') [''guides''] Map.empty exFreshWorld))"
    by code_simp
  then obtain hm where
    "fst (buildHierarchy storeApi (Some ''100'') [''guides''] Map.empty exFreshWorld) = Inr hm"
    by (cases "fst (buildHierarchy storeApi (Some ''100'') [''guides''] Map.empty exFreshWorld)") auto
  then have h: "buildHierarchy storeApi
      (case getRootPage storeApi exConfig (remote exFreshWorld) of
         Some rootPage \<Rightarrow> Some (page_id rootPage) | None \<Rightarrow> None)
      (categoriesOf exDocuments) Map.empty exFreshWorld =
      (Inr hm, snd (buildHierarchy storeApi (Some ''100'') [''guides''] Map.empty exFreshWorld))"
    by (simp add: p cats prod_eq_iff)
  note t = syncDocs_dryRun [OF ne conn refl h, of exCollaborators "[]"]
  have c: "calls (snd (buildHierarchy storeApi (Some ''100'') [''guides''] Map.empty exFreshWorld)) =
     [FindOrCreateParentPage ''guides'' (Some ''100''), CreateOrUpdatePage ''Guides'',
      CreatePage ''Guides'' (Some ''100'')]"
    by code_simp
  have s: "map (\<lambda>(p, parent). (page_id p, page_title p, parent))
     (stored (remote (snd (buildHierarchy storeApi (Some ''100'') [''guides''] Map.empty exFreshWorld)))) =
     [(''100'', ''Docs'', None), (''101'', ''Guides'', Some ''100'')]"
    by code_simp
  have l: "length exDocuments = 3"
    by (simp add: exDocuments_def)
  from t c s l show ?thesis
    by (simp add: summaryOf_def zeroStats_def)
qed


text \<open>
  C5. Whichever documents fail, a run that reaches the loop and can save its state returns the
  summary with the five counts. An error in a document adds one to \<open>failed\<close> and to nothing
  else, and the loop goes on with the rest of the documents from there; the documents after
  any prefix are processed from the counts and state the prefix left. Every document is
  counted exactly once as processed, skipped or failed, and outside a dry run the processed
  ones are the created and the updated ones.
\<close>

theorem syncDocs_failures_counted:
  assumes "documents \<noteq> []" and "api_testConnection a (remote w)"
    and "parentId = (case getRootPage a cfg (remote w) of
                       Some rootPage \<Rightarrow> Some (page_id rootPage) | None \<Rightarrow> None)"
    and "buildHierarchy a parentId (categoriesOf documents) Map.empty w = (Inr hierarchyMap, w1)"
    and "processDocuments k a dryRun hierarchyMap parentId documents zeroStats (w1, st) = (s, w2, st2)"
    and "dryRun \<or> saveState k st2 = None"
  shows "fst (syncDocs k a cfg dryRun documents (w, st)) = Inr (summaryOf s) \<and>
         processed s + skipped s + failed s = length documents \<and>
         (\<not> dryRun \<longrightarrow> created s + updated s = processed s) \<and>
         (\<forall>doc rest s0 ws0 e ws1.
            \<not> dryRun \<and> needsSync (snd ws0) (doc_relativePath doc) (doc_lastModified doc) \<and>
            syncDocument k a hierarchyMap parentId doc ws0 = (Inl e, ws1) \<longrightarrow>
              processDocuments k a dryRun hierarchyMap parentId (doc # rest) s0 ws0 =
                processDocuments k a dryRun hierarchyMap parentId rest
                  (s0\<lparr>failed := failed s0 + 1\<rparr>) ws1) \<and>
         (\<forall>before after.
            documents = before @ after \<longrightarrow>
              (case processDocuments k a dryRun hierarchyMap parentId before zeroStats (w1, st) of
                 (s1, ws1) \<Rightarrow>
                   processDocuments k a dryRun hierarchyMap parentId after s1 ws1 = (s, w2, st2)))"
proof -
  have run: "fst (syncDocs k a cfg dryRun documents (w, st)) = Inr (summaryOf s)"
    using assms by (auto simp: syncDocs_def Let_def)
  have total: "processed s + skipped s + failed s = length documents"
    using processDocuments_total [of k a dryRun hierarchyMap parentId documents zeroStats "(w1, st)"]
      assms(5)
    by (simp add: zeroStats_def)
  have made: "\<not> dryRun \<longrightarrow> created s + updated s = processed s"
    using processDocuments_created_sync [of k a hierarchyMap parentId documents zeroStats "(w1, st)" s "(w2, st2)"]
      assms(5)
    by (auto simp: zeroStats_def)
  have step: "\<forall>doc rest s0 ws0 e ws1.
      \<not> dryRun \<and> needsSync (snd ws0) (doc_relativePath doc) (doc_lastModified doc) \<and>
      syncDocument k a hierarchyMap parentId doc ws0 = (Inl e, ws1) \<longrightarrow>
        processDocuments k a dryRun hierarchyMap parentId (doc # rest) s0 ws0 =
          processDocuments k a dryRun hierarchyMap parentId rest (s0\<lparr>failed := failed s0 + 1\<rparr>) ws1"
    by simp
  have rest: "\<forall>before after.
      documents = before @ after \<longrightarrow>
        (case processDocuments k a dryRun hierarchyMap parentId before zeroStats (w1, st) of
           (s1, ws1) \<Rightarrow>
             processDocuments k a dryRun hierarchyMap parentId after s1 ws1 = (s, w2, st2))"
    using assms(5) by (auto simp: processDocuments_append split: prod.splits)
  from run total made step rest show ?thesis
    by blast
qed

theorem syncDocs_failures_counted_witness:
  "\<exists>s. fst (syncDocs exCollaborators storeApi exConfig False exDocuments (exFreshWorld, [])) =
          Inr (summaryOf s) \<and>
        processed s = 2 \<and> created s = 2 \<and> updated s = 0 \<and> skipped s = 0 \<and> failed s = 1 \<and>
        processed s + skipped s + failed s = length exDocuments"
proof -
  have ne: "exDocuments \<noteq> []"
    by (simp add: exDocuments_def)
  have conn: "api_testConnection storeApi (remote exFreshWorld)"
    by (simp add: storeApi_def)
  have p: "(case getRootPage storeApi exConfig (remote exFreshWorld) of
         Some rootPage \<Rightarrow> Some (page_id rootPage) | None \<Rightarrow> None) = Some ''100''"
    by code_simp
  have cats: "categoriesOf exDocuments = [''guides'']"
    by code_simp
  have ok: "\<not> isl (fst (buildHierarchy storeApi (Some ''100'') [''guides''] Map.empty exFreshWorld))"
    by code_simp
  then obtain hm where
    "fst (buildHierarchy storeApi (Some ''100'') [''guides''] Map.empty exFreshWorld) = Inr hm"
    by (cases "fst (buildHierarchy storeApi (Some ''100'') [''guides''] Map.empty exFreshWorld)") auto
  then have h: "buildHierarchy storeApi
      (case getRootPage storeApi exConfig (remote exFreshWorld) of
         Some rootPage \<Rightarrow> Some (page_id rootPage) | None \<Rightarrow> None)
      (categoriesOf exDocuments) Map.empty exFreshWorld =
      (Inr hm, snd (buildHierarchy storeApi (Some ''100'') [''guides''] Map.empty exFreshWorld))"
    by (simp add: p cats prod_eq_iff)
  define out where "out = processDocuments exCollaborators storeApi False hm
      (case getRootPage storeApi exConfig (remote exFreshWorld) of
         Some rootPage \<Rightarrow> Some (page_id rootPage) | None \<Rightarrow> None)
      exDocuments zeroStats
      (snd (buildHierarchy storeApi (Some ''100'') [''guides''] Map.empty exFreshWorld), [])"
  have o: "processDocuments exCollaborators storeApi False hm
      (case getRootPage storeApi exConfig (remote exFreshWorld) of
         Some rootPage \<Rightarrow> Some (page_id rootPage) | None \<Rightarrow> None)
      exDocuments zeroStats
      (snd (buildHierarchy storeApi (Some ''100'') [''guides''] Map.empty exFreshWorld), []) =
      (fst out, fst (snd out), snd (snd out))"
    by (simp add: out_def)
  have sv: "False \<or> saveState exCollaborators (snd (snd out)) = None"
    by (simp add: exCollaborators_def)
  note t = syncDocs_failures_counted [OF ne conn refl h o sv]
  have v: "fst (syncDocs exCollaborators storeApi exConfig False exDocuments (exFreshWorld, [])) =
      Inr \<lparr>sum_processed = 2, sum_created = 2, sum_updated = 0, sum_skipped = 0, sum_failed = Some 1\<rparr>"
    by code_simp
  from t v have e: "summaryOf (fst out) =
      \<lparr>sum_processed = 2, sum_created = 2, sum_updated = 0, sum_skipped = 0, sum_failed = Some 1\<rparr>"
    by simp
  then have "processed (fst out) = 2 \<and> created (fst out) = 2 \<and> updated (fst out) = 0 \<and>
      skipped (fst out) = 0 \<and> failed (fst out) = 1"
    by (simp add: summaryOf_def)
  with t show ?thesis
    by blast
qed


subsection \<open>The container pages of a chain of categories\<close>

lemma find_none: "(\<And>x. x \<in> set xs \<Longrightarrow> \<not> P x) \<Longrightarrow> List.find P xs = None"
  by (induction xs) auto

lemma find_append_first:
  "(\<And>x. x \<in> set xs \<Longrightarrow> \<not> P x) \<Longrightarrow> P y \<Longrightarrow> List.find P (xs @ y # ys) = Some y"
  by (induction xs) auto

lemma findPageByTitleAndParent_none:
  assumes "t \<notin> set (titlesOf r)"
  shows "findPageByTitleAndParent storeApi t parent r = None"
proof -
  have a: "List.find (\<lambda>(p, par). page_title p = t) (stored r) = None"
    using assms by (intro find_none) (auto simp: titlesOf_def)
  have b: "List.find (\<lambda>child. page_title child = t)
      (map fst (filter (\<lambda>(p, par). par = Some (the parent)) (stored r))) = None"
    using assms by (intro find_none) (auto simp: titlesOf_def)
  show ?thesis
    by (simp add: findPageByTitleAndParent_def storeApi_def a b)
qed

lemma findPageByTitleAndParent_found:
  assumes "stored r = xs @ (p, q) # ys"
    and "t \<notin> (\<lambda>(p, par). page_title p) ` set xs"
    and "page_title p = t"
    and "truthy parent \<longrightarrow> q = parent"
  shows "findPageByTitleAndParent storeApi t parent r = Some p"
proof (cases "truthy parent")
  case False
  have "List.find (\<lambda>(p, par). page_title p = t) (xs @ (p, q) # ys) = Some (p, q)"
    using assms(2,3) by (intro find_append_first) force+
  with False show ?thesis
    by (simp add: findPageByTitleAndParent_def storeApi_def assms(1))
next
  case True
  then obtain pid where pid: "parent = Some pid"
    by (cases parent) auto
  with True assms(4) have q: "q = Some pid"
    by simp
  have "List.find (\<lambda>child. page_title child = t)
      (map fst (filter (\<lambda>(p, par). par = Some pid) xs) @
       p # map fst (filter (\<lambda>(p, par). par = Some pid) ys)) = Some p"
    using assms(2,3) by (intro find_append_first) force+
  with True pid q show ?thesis
    by (simp add: findPageByTitleAndParent_def storeApi_def assms(1))
qed

lemma createOrUpdatePage_new:
  assumes "t \<notin> set (titlesOf (remote w))" and "freshIds (remote w) = i # spare"
  shows "createOrUpdatePage storeApi \<lparr>pd_title = t, pd_content = c, pd_parentId = par\<rparr> w =
      (Inr \<lparr>page_id = i, page_title = t, page_version = Some 1, page_body = Some c\<rparr>,
       \<lparr>remote = \<lparr>stored = stored (remote w) @
                   [(\<lparr>page_id = i, page_title = t, page_version = Some 1, page_body = Some c\<rparr>,
                     if truthy par then par else None)],
                 freshIds = spare\<rparr>,
        calls = calls w @ [CreateOrUpdatePage t, CreatePage t (if truthy par then par else None)]\<rparr>)"
proof -
  have a: "List.find (\<lambda>(p, par). page_title p = t) (stored (remote w)) = None"
    using assms(1) by (intro find_none) (auto simp: titlesOf_def)
  show ?thesis
    by (simp add: createOrUpdatePage_def createPage_def logCall_def wrapSyncError_def storeApi_def
        a assms(2) Let_def)
qed

lemma remote_logCall: "remote (logCall c w) = remote w"
  by (simp add: logCall_def)

lemma calls_logCall: "calls (logCall c w) = calls w @ [c]"
  by (simp add: logCall_def)

lemma formatCategoryTitle_abc: "formatCategoryTitle ''a'' = ''A''" "formatCategoryTitle ''b'' = ''B''"
  "formatCategoryTitle ''c'' = ''C''"
  by code_simp+

lemma segments_abc: "filter (\<lambda>s. s \<noteq> []) (splitOn CHR ''/'' ''a'') = [''a'']"
  "filter (\<lambda>s. s \<noteq> []) (splitOn CHR ''/'' ''a/b'') = [''a'', ''b'']"
  "filter (\<lambda>s. s \<noteq> []) (splitOn CHR ''/'' ''a/b/c'') = [''a'', ''b'', ''c'']"
  by simp_all

text \<open>
  C3 (as amended). On a wiki that has no page titled \<open>A\<close>, \<open>B\<close> or \<open>C\<close> yet and that answers
  every call, handing out non-empty page identifiers, the hierarchy reconciliation of the
  category paths \<open>a\<close>, \<open>a/b\<close>, \<open>a/b/c\<close> makes exactly these calls, in this order: for \<open>a\<close> it
  creates \<open>A\<close> under the root, for \<open>a/b\<close> it finds \<open>A\<close> again and creates \<open>B\<close> under it, for
  \<open>a/b/c\<close> it finds \<open>A\<close> and \<open>B\<close> again and creates \<open>C\<close> under \<open>B\<close>. So there are exactly
  three page creations, one per prefix, and no update of any page; the wiki ends with exactly
  these three pages added, each with its placeholder content, and the hierarchy map sends
  each path to its page.
\<close>

theorem hierarchy_three_creations:
  assumes fresh: "set [''A'', ''B'', ''C''] \<inter> set (titlesOf r0) = {}"
    and ids: "freshIds r0 = i1 # i2 # i3 # spare" "i1 \<noteq> []" "i2 \<noteq> []"
    and rootId: "rootId = (if truthy root then root else None)"
  shows "buildHierarchy storeApi root [''a'', ''a/b'', ''a/b/c''] Map.empty
           \<lparr>remote = r0, calls = cs\<rparr> =
         (Inr [''a'' \<mapsto> Some i1, ''a/b'' \<mapsto> Some i2, ''a/b/c'' \<mapsto> Some i3],
          \<lparr>remote =
             \<lparr>stored = stored r0 @
                [(containerPage i1 ''A'' ''a'', rootId),
                 (containerPage i2 ''B'' ''a/b'', Some i1),
                 (containerPage i3 ''C'' ''a/b/c'', Some i2)],
              freshIds = spare\<rparr>,
           calls = cs @
             [FindOrCreateParentPage ''a'' root, CreateOrUpdatePage ''A'', CreatePage ''A'' rootId,
              FindOrCreateParentPage ''a/b'' root, CreateOrUpdatePage ''B'', CreatePage ''B'' (Some i1),
              FindOrCreateParentPage ''a/b/c'' root, CreateOrUpdatePage ''C'',
              CreatePage ''C'' (Some i2)]\<rparr>)"
proof -
  define pA where "pA = containerPage i1 ''A'' ''a''"
  define pB where "pB = containerPage i2 ''B'' ''a/b''"
  define pC where "pC = containerPage i3 ''C'' ''a/b/c''"
  define w1 :: "store world" where "w1 =
    \<lparr>remote = \<lparr>stored = stored r0 @ [(pA, rootId)], freshIds = i2 # i3 # spare\<rparr>,
     calls = cs @ [FindOrCreateParentPage ''a'' root, CreateOrUpdatePage ''A'', CreatePage ''A'' rootId]\<rparr>"
  define w2 :: "store world" where "w2 =
    \<lparr>remote = \<lparr>stored = stored r0 @ [(pA, rootId), (pB, Some i1)], freshIds = i3 # spare\<rparr>,
     calls = calls w1 @
       [FindOrCreateParentPage ''a/b'' root, CreateOrUpdatePage ''B'', CreatePage ''B'' (Some i1)]\<rparr>"
  define w3 :: "store world" where "w3 =
    \<lparr>remote = \<lparr>stored = stored r0 @ [(pA, rootId), (pB, Some i1), (pC, Some i2)], freshIds = spare\<rparr>,
     calls = calls w2 @
       [FindOrCreateParentPage ''a/b/c'' root, CreateOrUpdatePage ''C'', CreatePage ''C'' (Some i2)]\<rparr>"
  have t0: "''A'' \<notin> set (titlesOf r0)" "''B'' \<notin> set (titlesOf r0)" "''C'' \<notin> set (titlesOf r0)"
    using fresh by auto
  have tA: "page_title pA = ''A''" "page_id pA = i1" and tB: "page_title pB = ''B''" "page_id pB = i2"
    and tC: "page_id pC = i3"
    by (simp_all add: pA_def pB_def pC_def containerPage_def)
  have t1: "''B'' \<notin> set (titlesOf (remote w1))" "''C'' \<notin> set (titlesOf (remote w1))"
    using t0 by (simp_all add: w1_def titlesOf_def tA)
  have t2: "''C'' \<notin> set (titlesOf (remote w2))"
    using t0 by (simp_all add: w2_def titlesOf_def tA tB)
  have x0: "''A'' \<notin> (\<lambda>(p, par). page_title p) ` set (stored r0)"
    "''B'' \<notin> (\<lambda>(p, par). page_title p) ` set (stored r0 @ [(pA, rootId)])"
    using t0 by (auto simp: titlesOf_def tA)
  have f0: "freshIds (remote \<lparr>remote = r0, calls = cs\<rparr>) = i1 # i2 # i3 # spare"
    using ids(1) by simp
  have f1: "freshIds (remote w1) = i2 # i3 # spare"
    by (simp add: w1_def)
  have f2: "freshIds (remote w2) = i3 # spare"
    by (simp add: w2_def)
  have tr: "truthy (Some i1)" "truthy (Some i2)"
    using ids(2,3) by simp_all
  have s1: "findOrCreateParentPage storeApi ''a'' root \<lparr>remote = r0, calls = cs\<rparr> = (Inr (Some i1), w1)"
    using t0 f0
    by (simp add: findOrCreateParentPage_def segments_abc formatCategoryTitle_abc Let_def remote_logCall calls_logCall
        findPageByTitleAndParent_none createOrUpdatePage_new w1_def pA_def containerPage_def rootId)
  have fA1: "findPageByTitleAndParent storeApi ''A'' root (remote w1) = Some pA"
    by (rule findPageByTitleAndParent_found [where xs = "stored r0" and q = rootId and ys = "[]"])
      (simp_all add: w1_def x0 tA rootId)
  have s2: "findOrCreateParentPage storeApi ''a/b'' root w1 = (Inr (Some i2), w2)"
    using t1 f1 tr
    by (simp add: findOrCreateParentPage_def segments_abc formatCategoryTitle_abc Let_def remote_logCall calls_logCall
        fA1 tA findPageByTitleAndParent_none createOrUpdatePage_new)
      (simp add: w1_def w2_def pB_def containerPage_def)
  have fA2: "findPageByTitleAndParent storeApi ''A'' root (remote w2) = Some pA"
    by (rule findPageByTitleAndParent_found [where xs = "stored r0" and q = rootId and ys = "[(pB, Some i1)]"])
      (simp_all add: w2_def x0 tA rootId)
  have fB2: "findPageByTitleAndParent storeApi ''B'' (Some i1) (remote w2) = Some pB"
    by (rule findPageByTitleAndParent_found [where xs = "stored r0 @ [(pA, rootId)]" and q = "Some i1" and ys = "[]"])
      (use t0 in \<open>simp_all add: w2_def tA tB titlesOf_def\<close>)
  have s3: "findOrCreateParentPage storeApi ''a/b/c'' root w2 = (Inr (Some i3), w3)"
    using t2 f2 tr
    by (simp add: findOrCreateParentPage_def segments_abc formatCategoryTitle_abc Let_def remote_logCall calls_logCall
        fA2 fB2 tA tB findPageByTitleAndParent_none createOrUpdatePage_new)
      (simp add: w2_def w3_def pC_def containerPage_def)
  have "buildHierarchy storeApi root [''a'', ''a/b'', ''a/b/c''] Map.empty \<lparr>remote = r0, calls = cs\<rparr> =
      (Inr [''a'' \<mapsto> Some i1, ''a/b'' \<mapsto> Some i2, ''a/b/c'' \<mapsto> Some i3], w3)"
    by (simp add: s1 s2 s3)
  then show ?thesis
    by (simp add: w3_def w2_def w1_def pA_def pB_def pC_def)
qed


theorem hierarchy_three_creations_witness:
  "set [''A'', ''B'', ''C''] \<inter> set (titlesOf (remote exFreshWorld)) = {} \<and>
   freshIds (remote exFreshWorld) = [''101'', ''102'', ''103'', ''104'', ''105''] \<and>
   buildHierarchy storeApi (Some ''100'') [''a'', ''a/b'', ''a/b/c''] Map.empty exFreshWorld =
     (Inr [''a'' \<mapsto> Some ''101'', ''a/b'' \<mapsto> Some ''102'', ''a/b/c'' \<mapsto> Some ''103''],
      \<lparr>remote =
         \<lparr>stored =
            [(exRootPage, None),
             (containerPage ''101'' ''A'' ''a'', Some ''100''),
             (containerPage ''102'' ''B'' ''a/b'', Some ''101''),
             (containerPage ''103'' ''C'' ''a/b/c'', Some ''102'')],
          freshIds = [''104'', ''105'']\<rparr>,
       calls =
         [FindOrCreateParentPage ''a'' (Some ''100''), CreateOrUpdatePage ''A'',
          CreatePage ''A'' (Some ''100''),
          FindOrCreateParentPage ''a/b'' (Some ''100''), CreateOrUpdatePage ''B'',
          CreatePage ''B'' (Some ''101''),
          FindOrCreateParentPage ''a/b/c'' (Some ''100''), CreateOrUpdatePage ''C'',
          CreatePage ''C'' (Some ''102'')]\<rparr>)"
proof -
  have w: "exFreshWorld = \<lparr>remote = remote exFreshWorld, calls = []\<rparr>"
    by (simp add: exFreshWorld_def)
  have t: "set [''A'', ''B'', ''C''] \<inter> set (titlesOf (remote exFreshWorld)) = {}"
    by (simp add: exFreshWorld_def titlesOf_def exRootPage_def)
  have f: "freshIds (remote exFreshWorld) = ''101'' # ''102'' # ''103'' # [''104'', ''105'']"
    by (simp add: exFreshWorld_def)
  have s: "stored (remote exFreshWorld) = [(exRootPage, None)]"
    by (simp add: exFreshWorld_def)
  note h = hierarchy_three_creations [OF t f, where root = "Some ''100''" and rootId = "Some ''100''"
      and cs = "[]", folded w]
  from h t f s show ?thesis
    by simp
qed

text \<open>
  C3 as stated fails on a wiki that already has a page titled \<open>B\<close> elsewhere: only two pages
  are created. \<open>createOrUpdatePage\<close> looks the title up in the whole space, so the run
  overwrites that page, twice, and takes it as the page of \<open>a/b\<close>, although it is not a
  child of the page of \<open>a\<close>. It also fails on a wiki that refuses the creation of a page:
  the reconciliation stops with the error of the first creation call.
\<close>

theorem hierarchy_three_creations_counterexample:
  "calls (snd (buildHierarchy storeApi (Some ''100'') [''a'', ''a/b'', ''a/b/c''] Map.empty exUsedWorld)) =
     [FindOrCreateParentPage ''a'' (Some ''100''), CreateOrUpdatePage ''A'',
      CreatePage ''A'' (Some ''100''),
      FindOrCreateParentPage ''a/b'' (Some ''100''), CreateOrUpdatePage ''B'',
      UpdatePage ''150'' ''B'' 5,
      FindOrCreateParentPage ''a/b/c'' (Some ''100''), CreateOrUpdatePage ''B'',
      UpdatePage ''150'' ''B'' 6, CreateOrUpdatePage ''C'', CreatePage ''C'' (Some ''150'')] \<and>
   length (filter isCreatePage
     (calls (snd (buildHierarchy storeApi (Some ''100'') [''a'', ''a/b'', ''a/b/c''] Map.empty
        exUsedWorld)))) = 2 \<and>
   isl (fst (buildHierarchy storeApi (Some ''100'') [''a'', ''a/b'', ''a/b/c''] Map.empty
      (exFreshWorld\<lparr>remote := (remote exFreshWorld)\<lparr>freshIds := []\<rparr>\<rparr>))) \<and>
   calls (snd (buildHierarchy storeApi (Some ''100'') [''a'', ''a/b'', ''a/b/c''] Map.empty
      (exFreshWorld\<lparr>remote := (remote exFreshWorld)\<lparr>freshIds := []\<rparr>\<rparr>))) =
     [FindOrCreateParentPage ''a'' (Some ''100''), CreateOrUpdatePage ''A'',
      CreatePage ''A'' (Some ''100'')]"
  by code_simp

section \<open>Properties of the reverse sync and of the sync state\<close>

text \<open>
  C2 (as amended). For a tracked page that has a page identifier and is fetched from the wiki,
  with a missing or zero version number counting as 1 on both sides: if the current version
  is not greater than the recorded one, the page is skipped and the file, the images and the
  state are left unchanged; the Markdown file or the state change only if the current
  version is strictly greater and the run is not a dry run; and if it is strictly greater
  and the run is not a dry run, then, when the local file exists and can be read, its front
  matter parses, the conversion succeeds and the write succeeds, the file is rewritten with
  the regenerated content and the new version is recorded. In a dry run, without the local
  file, or when reading, the front matter, the conversion or the write fails, the page is
  counted as skipped and neither the Markdown file nor the state is written. The images are
  touched by the conversion alone, which runs, also in a dry run, once the file is read and
  its front matter parsed.
\<close>

theorem reversePage_version_gate:
  assumes "reversePage fs env a r dryRun (filePath, info) (s, mdFiles, d, st) = (s', mdFiles', d', st')"
    and "truthy (confluenceId info)"
    and "api_getPageById a r (the (confluenceId info)) = Inr (Some confluencePage)"
    and "currentVersion = orOne (page_version confluencePage)"
    and "lastSyncVersion = orOne (pi_version info)"
    and "absoluteFilePath = fs_resolve fs filePath"
    and "converted = convertToMarkdown env
           (case page_body confluencePage of Some b \<Rightarrow> b | None \<Rightarrow> [])
           (the (confluenceId info)) absoluteFilePath d"
  shows "(currentVersion \<le> lastSyncVersion \<longrightarrow>
            mdFiles' = mdFiles \<and> d' = d \<and> st' = st \<and> r_skipped s' = r_skipped s + 1 \<and>
            r_updated s' = r_updated s \<and> r_processed s' = r_processed s) \<and>
         (r_updated s' \<noteq> r_updated s \<or> mdFiles' \<noteq> mdFiles \<or> st' \<noteq> st \<longrightarrow>
            currentVersion > lastSyncVersion \<and> \<not> dryRun) \<and>
         (currentVersion > lastSyncVersion \<and> \<not> dryRun \<longrightarrow>
            (\<forall>original frontmatter markdown d1.
               mdFiles absoluteFilePath = Some original \<and> \<not> fs_readFails fs absoluteFilePath \<and>
               frontmatterOf env original = Inr frontmatter \<and>
               converted = (Inr markdown, d1) \<and>
               \<not> fs_writeFails fs absoluteFilePath \<longrightarrow>
                 mdFiles' = mdFiles(absoluteFilePath \<mapsto> newFileContent frontmatter markdown) \<and>
                 st' = setPageState st filePath
                         (info\<lparr>pi_version := Some currentVersion, pi_lastModified := clock env\<rparr>) \<and>
                 r_updated s' = r_updated s + 1 \<and> r_skipped s' = r_skipped s)) \<and>
         (dryRun \<or> mdFiles absoluteFilePath = None \<or> fs_readFails fs absoluteFilePath \<or>
          (\<exists>original. mdFiles absoluteFilePath = Some original \<and>
             isl (frontmatterOf env original)) \<or>
          isl (fst converted) \<or>
          fs_writeFails fs absoluteFilePath \<longrightarrow>
            mdFiles' = mdFiles \<and> st' = st \<and> r_updated s' = r_updated s \<and>
            r_skipped s' = r_skipped s + 1) \<and>
         d' = (if currentVersion > lastSyncVersion \<and>
                  (\<exists>original. mdFiles absoluteFilePath = Some original \<and>
                     \<not> fs_readFails fs absoluteFilePath \<and> \<not> isl (frontmatterOf env original))
               then snd converted else d)"
proof -
  have le: "currentVersion \<le> lastSyncVersion \<longrightarrow>
      mdFiles' = mdFiles \<and> d' = d \<and> st' = st \<and> r_skipped s' = r_skipped s + 1 \<and>
      r_updated s' = r_updated s \<and> r_processed s' = r_processed s"
    using assms(1-5) by (auto simp: reversePage_def Let_def)
  have gt: "currentVersion > lastSyncVersion \<and> \<not> dryRun \<longrightarrow>
      (\<forall>original frontmatter markdown d1.
         mdFiles absoluteFilePath = Some original \<and> \<not> fs_readFails fs absoluteFilePath \<and>
         frontmatterOf env original = Inr frontmatter \<and>
         converted = (Inr markdown, d1) \<and>
         \<not> fs_writeFails fs absoluteFilePath \<longrightarrow>
           mdFiles' = mdFiles(absoluteFilePath \<mapsto> newFileContent frontmatter markdown) \<and>
           st' = setPageState st filePath
                   (info\<lparr>pi_version := Some currentVersion, pi_lastModified := clock env\<rparr>) \<and>
           r_updated s' = r_updated s + 1 \<and> r_skipped s' = r_skipped s)"
    using assms by (auto simp: reversePage_def Let_def)
  have no: "dryRun \<or> mdFiles absoluteFilePath = None \<or> fs_readFails fs absoluteFilePath \<or>
      (\<exists>original. mdFiles absoluteFilePath = Some original \<and>
         isl (frontmatterOf env original)) \<or>
      isl (fst converted) \<or>
      fs_writeFails fs absoluteFilePath \<longrightarrow>
        mdFiles' = mdFiles \<and> st' = st \<and> r_updated s' = r_updated s \<and>
        r_skipped s' = r_skipped s + 1"
    using assms
    by (auto simp: reversePage_def Let_def split: option.splits sum.splits prod.splits if_splits)
  have only: "r_updated s' \<noteq> r_updated s \<or> mdFiles' \<noteq> mdFiles \<or> st' \<noteq> st \<longrightarrow>
      currentVersion > lastSyncVersion \<and> \<not> dryRun"
    using le no by auto
  have img: "d' = (if currentVersion > lastSyncVersion \<and>
                  (\<exists>original. mdFiles absoluteFilePath = Some original \<and>
                     \<not> fs_readFails fs absoluteFilePath \<and> \<not> isl (frontmatterOf env original))
               then snd converted else d)"
    using assms
    by (auto simp: reversePage_def Let_def split: option.splits sum.splits prod.splits if_splits)
  from le only gt no img show ?thesis
    by blast
qed


text \<open>
  C2 as stated fails: the page is at version 2 in the wiki, version 1 is recorded and the
  local file exists, yet the file is not rewritten in a dry run (the page counts as processed
  and skipped), nor when the write fails (the same), nor when the local file is missing (the
  page counts as skipped); the state keeps the recorded version each time.
\<close>

theorem reversePage_counterexample:
  "orOne (page_version \<lparr>page_id = ''201'', page_title = ''Intro'', page_version = Some 2,
                        page_body = Some ''<p>new</p>''\<rparr>) > orOne (pi_version exPageInfo) \<and>
   api_getPageById storeApi exRemoteEdited ''201'' =
     Inr (Some \<lparr>page_id = ''201'', page_title = ''Intro'', page_version = Some 2,
                page_body = Some ''<p>new</p>''\<rparr>) \<and>
   exMdFiles (fs_resolve exFs ''docs/intro.md'') = Some ''old'' \<and>
   reversePage exFs exReverseEnv storeApi exRemoteEdited True (''docs/intro.md'', exPageInfo)
       (zeroReverseStats, exMdFiles, exDiskEmpty, [(''docs/intro.md'', exPageInfo)]) =
     (\<lparr>r_processed = 1, r_updated = 0, r_skipped = 1\<rparr>, exMdFiles, exDiskEmpty,
      [(''docs/intro.md'', exPageInfo)]) \<and>
   reversePage exFsReadOnly exReverseEnv storeApi exRemoteEdited False (''docs/intro.md'', exPageInfo)
       (zeroReverseStats, exMdFiles, exDiskEmpty, [(''docs/intro.md'', exPageInfo)]) =
     (\<lparr>r_processed = 1, r_updated = 0, r_skipped = 1\<rparr>, exMdFiles, exDiskEmpty,
      [(''docs/intro.md'', exPageInfo)]) \<and>
   reversePage exFs exReverseEnv storeApi exRemoteEdited False (''docs/intro.md'', exPageInfo)
       (zeroReverseStats, Map.empty, exDiskEmpty, [(''docs/intro.md'', exPageInfo)]) =
     (\<lparr>r_processed = 0, r_updated = 0, r_skipped = 1\<rparr>, Map.empty, exDiskEmpty,
      [(''docs/intro.md'', exPageInfo)])"
proof -
  have g: "api_getPageById storeApi exRemoteEdited ''201'' =
     Inr (Some \<lparr>page_id = ''201'', page_title = ''Intro'', page_version = Some 2,
                page_body = Some ''<p>new</p>''\<rparr>)"
    by (simp add: storeApi_def exRemoteEdited_def)
  have i: "confluenceId exPageInfo = Some ''201''" "pi_version exPageInfo = Some 1"
    by (simp_all add: exPageInfo_def)
  have p: "fs_resolve exFs ''docs/intro.md'' = ''docs/intro.md''"
    "\<not> fs_readFails exFs ''docs/intro.md''"
    "fs_resolve exFsReadOnly ''docs/intro.md'' = ''docs/intro.md''"
    "\<not> fs_readFails exFsReadOnly ''docs/intro.md''"
    "fs_writeFails exFsReadOnly ''docs/intro.md''"
    by (simp_all add: exFs_def exFsReadOnly_def)
  have f: "exMdFiles ''docs/intro.md'' = Some ''old''"
    by (simp add: exMdFiles_def)
  have m: "frontmatterOf exReverseEnv ''old'' = Inr [(''title'', FmString ''Intro'')]"
    by (simp add: exReverseEnv_def)
  have c: "convertToMarkdown exReverseEnv ''<p>new</p>'' ''201'' ''docs/intro.md'' exDiskEmpty =
      (Inr ''new'', exDiskEmpty)"
    by (simp add: exReverseEnv_def)
  have dry: "reversePage exFs exReverseEnv storeApi exRemoteEdited True (''docs/intro.md'', exPageInfo)
       (zeroReverseStats, exMdFiles, exDiskEmpty, [(''docs/intro.md'', exPageInfo)]) =
     (\<lparr>r_processed = 1, r_updated = 0, r_skipped = 1\<rparr>, exMdFiles, exDiskEmpty,
      [(''docs/intro.md'', exPageInfo)])"
    by (simp add: reversePage_def g i p f m c zeroReverseStats_def Let_def)
  have ro: "reversePage exFsReadOnly exReverseEnv storeApi exRemoteEdited False
       (''docs/intro.md'', exPageInfo)
       (zeroReverseStats, exMdFiles, exDiskEmpty, [(''docs/intro.md'', exPageInfo)]) =
     (\<lparr>r_processed = 1, r_updated = 0, r_skipped = 1\<rparr>, exMdFiles, exDiskEmpty,
      [(''docs/intro.md'', exPageInfo)])"
    by (simp add: reversePage_def g i p f m c zeroReverseStats_def Let_def)
  have gone: "reversePage exFs exReverseEnv storeApi exRemoteEdited False
       (''docs/intro.md'', exPageInfo)
       (zeroReverseStats, Map.empty, exDiskEmpty, [(''docs/intro.md'', exPageInfo)]) =
     (\<lparr>r_processed = 0, r_updated = 0, r_skipped = 1\<rparr>, Map.empty, exDiskEmpty,
      [(''docs/intro.md'', exPageInfo)])"
    by (simp add: reversePage_def g i p zeroReverseStats_def Let_def)
  from g i p f dry ro gone show ?thesis
    by simp
qed

theorem reversePage_version_gate_witness:
  "fst (snd (reversePage exFs exReverseEnv storeApi exRemoteEdited False
       (''docs/intro.md'', exPageInfo)
       (zeroReverseStats, exMdFiles, exDiskEmpty, [(''docs/intro.md'', exPageInfo)]))) =
     exMdFiles(''docs/intro.md'' \<mapsto> ''---'' @ nl @ ''title: \"Intro\"'' @ nl @ ''---'' @ nl @ nl @ ''new'') \<and>
   recordedVersion (snd (snd (snd (reversePage exFs exReverseEnv storeApi exRemoteEdited False
       (''docs/intro.md'', exPageInfo)
       (zeroReverseStats, exMdFiles, exDiskEmpty, [(''docs/intro.md'', exPageInfo)])))))
     ''docs/intro.md'' = 2"
proof -
  have g: "api_getPageById storeApi exRemoteEdited (the (confluenceId exPageInfo)) =
     Inr (Some \<lparr>page_id = ''201'', page_title = ''Intro'', page_version = Some 2,
                page_body = Some ''<p>new</p>''\<rparr>)"
    by (simp add: storeApi_def exRemoteEdited_def exPageInfo_def)
  have tr: "truthy (confluenceId exPageInfo)"
    by (simp add: exPageInfo_def)
  have p: "fs_resolve exFs ''docs/intro.md'' = ''docs/intro.md''"
    "\<not> fs_readFails exFs ''docs/intro.md''" "\<not> fs_writeFails exFs ''docs/intro.md''"
    by (simp_all add: exFs_def)
  have f: "exMdFiles ''docs/intro.md'' = Some ''old''"
    by (simp add: exMdFiles_def)
  have m: "frontmatterOf exReverseEnv ''old'' = Inr [(''title'', FmString ''Intro'')]"
    by (simp add: exReverseEnv_def)
  have c: "convertToMarkdown exReverseEnv ''<p>new</p>'' ''201'' ''docs/intro.md'' exDiskEmpty =
      (Inr ''new'', exDiskEmpty)"
    by (simp add: exReverseEnv_def)
  have i: "confluenceId exPageInfo = Some ''201''" "pi_version exPageInfo = Some 1"
    by (simp_all add: exPageInfo_def)
  define out where "out = reversePage exFs exReverseEnv storeApi exRemoteEdited False
      (''docs/intro.md'', exPageInfo)
      (zeroReverseStats, exMdFiles, exDiskEmpty, [(''docs/intro.md'', exPageInfo)])"
  have o: "reversePage exFs exReverseEnv storeApi exRemoteEdited False
      (''docs/intro.md'', exPageInfo)
      (zeroReverseStats, exMdFiles, exDiskEmpty, [(''docs/intro.md'', exPageInfo)]) =
      (fst out, fst (snd out), fst (snd (snd out)), snd (snd (snd out)))"
    by (simp add: out_def)
  note t = reversePage_version_gate [OF o tr g refl refl refl refl]
  from t p f m c i have
    "fst (snd out) = exMdFiles(''docs/intro.md'' \<mapsto>
        newFileContent [(''title'', FmString ''Intro'')] ''new'')"
    and "snd (snd (snd out)) = setPageState [(''docs/intro.md'', exPageInfo)] ''docs/intro.md''
        (exPageInfo\<lparr>pi_version := Some 2, pi_lastModified := clock exReverseEnv\<rparr>)"
    by simp_all
  then show ?thesis
    unfolding out_def
    by (simp add: newFileContent_def setPageState_def recordedVersion_def i)
qed

lemma laterVersion_ge:
  "(case old of None \<Rightarrow> 0 | Some v \<Rightarrow> v) \<le> (case laterVersion old new of None \<Rightarrow> 0 | Some v \<Rightarrow> v)"
  by (cases old; cases new) simp_all

lemma setPageState_distinct:
  "distinct (map fst st) \<Longrightarrow> distinct (map fst (setPageState st path info))"
  by (simp add: setPageState_def distinct_update)

lemma setPageState_version:
  "recordedVersion st q \<le> recordedVersion (setPageState st path info) q"
proof (cases "q = path")
  case True
  show ?thesis
    using laterVersion_ge [of "case map_of st path of None \<Rightarrow> None | Some old \<Rightarrow> pi_version old"
        "pi_version info"]
    by (simp add: True recordedVersion_def setPageState_def update_conv' split: option.splits)
next
  case False
  then show ?thesis
    by (simp add: recordedVersion_def setPageState_def update_conv')
qed

lemma keepsRecords_refl: "distinct (map fst st) \<Longrightarrow> keepsRecords st st"
  by (simp add: keepsRecords_def)

lemma keepsRecords_set:
  "distinct (map fst st) \<Longrightarrow> keepsRecords st (setPageState st path info)"
  by (simp add: keepsRecords_def setPageState_distinct setPageState_version)

lemma keepsRecords_trans:
  "keepsRecords st st1 \<Longrightarrow> keepsRecords st1 st2 \<Longrightarrow> keepsRecords st st2"
  by (auto simp: keepsRecords_def intro: order_trans)

lemma reversePage_keeps:
  assumes "distinct (map fst st)"
  shows "keepsRecords st (snd (snd (snd (reversePage fs env a r dryRun entry (s, mdFiles, d, st)))))"
  using assms
  by (cases entry)
    (auto simp: reversePage_def Let_def keepsRecords_refl keepsRecords_set
      split: option.splits sum.splits prod.splits)

lemma syncDocument_keeps:
  assumes "distinct (map fst st)"
  shows "keepsRecords st (snd (snd (syncDocument k a hierarchyMap parentId doc (w, st))))"
  using assms
  by (auto simp: syncDocument_def Let_def keepsRecords_refl keepsRecords_set
      split: option.splits sum.splits prod.splits)

lemma processDocuments_keeps:
  "distinct (map fst st) \<Longrightarrow>
     keepsRecords st (snd (snd (processDocuments k a dryRun hierarchyMap parentId documents s (w, st))))"
proof (induction documents arbitrary: s w st)
  case Nil
  then show ?case by (simp add: keepsRecords_refl)
next
  case (Cons doc rest)
  show ?case
  proof (cases "\<not> dryRun \<and> \<not> needsSync st (doc_relativePath doc) (doc_lastModified doc)")
    case True
    then show ?thesis using Cons by simp
  next
    case False
    show ?thesis
    proof (cases dryRun)
      case True
      then show ?thesis using Cons by simp
    next
      case notDry: False
      obtain res w1 st1 where d: "syncDocument k a hierarchyMap parentId doc (w, st) = (res, w1, st1)"
        by (cases "syncDocument k a hierarchyMap parentId doc (w, st)") auto
      have k1: "keepsRecords st st1"
        using syncDocument_keeps [OF Cons.prems, of k a hierarchyMap parentId doc w] d by simp
      then have d1: "distinct (map fst st1)"
        by (simp add: keepsRecords_def)
      show ?thesis
        using False notDry d k1 Cons.IH [OF d1]
        by (cases res) (auto intro: keepsRecords_trans)
    qed
  qed
qed

lemma syncFile_keeps:
  assumes "distinct (map fst st)"
  shows "keepsRecords st (snd (snd (syncFile k a cfg now dryRun doc parsed (w, st))))"
  using assms
  by (auto simp: syncFile_def Let_def keepsRecords_refl keepsRecords_set
      split: option.splits sum.splits prod.splits)

lemma reversePage_hands_newer:
  assumes "reversePage fs env a r dryRun (filePath, info) (s, mdFiles, d, st) = (s', mdFiles', d', st')"
    and "st' \<noteq> st"
  shows "\<exists>currentVersion. orOne (pi_version info) < currentVersion \<and>
           st' = setPageState st filePath
                   (info\<lparr>pi_version := Some currentVersion, pi_lastModified := clock env\<rparr>)"
  using assms
  by (auto simp: reversePage_def Let_def not_le
      split: option.splits sum.splits prod.splits if_splits)

text \<open>
  C4. The state has at most one record for a path, and no operation lowers the version number
  recorded for any path: storing a record (\<open>setPageState\<close>), one pass of the reverse sync
  (recording a pull), \<open>syncFile\<close> and the document loop of \<open>syncDocs\<close> (recording a push).
  When the reverse sync rewrites a record, the version it hands over is strictly greater than
  the recorded one.
\<close>

theorem sync_state_versions:
  assumes "distinct (map fst st)"
  shows "keepsRecords st (setPageState st path info) \<and>
         keepsRecords st (snd (snd (snd (reversePage fs env a r dryRun entry (s, mdFiles, d, st))))) \<and>
         keepsRecords st (snd (snd (syncFile k a cfg now dryRun doc parsed (w, st)))) \<and>
         keepsRecords st
           (snd (snd (processDocuments k a dryRun hierarchyMap parentId documents counts (w, st)))) \<and>
         (snd (snd (snd (reversePage fs env a r dryRun entry (s, mdFiles, d, st)))) \<noteq> st \<longrightarrow>
            (\<exists>currentVersion. orOne (pi_version (snd entry)) < currentVersion \<and>
               snd (snd (snd (reversePage fs env a r dryRun entry (s, mdFiles, d, st)))) =
                 setPageState st (fst entry)
                   ((snd entry)\<lparr>pi_version := Some currentVersion, pi_lastModified := clock env\<rparr>)))"
proof -
  have pull: "snd (snd (snd (reversePage fs env a r dryRun entry (s, mdFiles, d, st)))) \<noteq> st \<longrightarrow>
      (\<exists>currentVersion. orOne (pi_version (snd entry)) < currentVersion \<and>
         snd (snd (snd (reversePage fs env a r dryRun entry (s, mdFiles, d, st)))) =
           setPageState st (fst entry)
             ((snd entry)\<lparr>pi_version := Some currentVersion, pi_lastModified := clock env\<rparr>))"
    using reversePage_hands_newer [of fs env a r dryRun "fst entry" "snd entry" s mdFiles d st
        "fst (reversePage fs env a r dryRun entry (s, mdFiles, d, st))"
        "fst (snd (reversePage fs env a r dryRun entry (s, mdFiles, d, st)))"
        "fst (snd (snd (reversePage fs env a r dryRun entry (s, mdFiles, d, st))))"
        "snd (snd (snd (reversePage fs env a r dryRun entry (s, mdFiles, d, st))))"]
    by simp
  from assms pull show ?thesis
    by (simp add: keepsRecords_set reversePage_keeps syncFile_keeps processDocuments_keeps)
qed

theorem sync_state_versions_witness:
  "distinct (map fst [(''docs/intro.md'', exPageInfo\<lparr>pi_version := Some 5\<rparr>)]) \<and>
   keepsRecords [(''docs/intro.md'', exPageInfo\<lparr>pi_version := Some 5\<rparr>)]
     (setPageState [(''docs/intro.md'', exPageInfo\<lparr>pi_version := Some 5\<rparr>)] ''docs/intro.md''
        (exPageInfo\<lparr>pi_version := Some 3\<rparr>)) \<and>
   recordedVersion
     (setPageState [(''docs/intro.md'', exPageInfo\<lparr>pi_version := Some 5\<rparr>)] ''docs/intro.md''
        (exPageInfo\<lparr>pi_version := Some 3\<rparr>)) ''docs/intro.md'' = 5"
proof -
  have d: "distinct (map fst [(''docs/intro.md'', exPageInfo\<lparr>pi_version := Some 5\<rparr>)])"
    by simp
  have v: "recordedVersion
     (setPageState [(''docs/intro.md'', exPageInfo\<lparr>pi_version := Some 5\<rparr>)] ''docs/intro.md''
        (exPageInfo\<lparr>pi_version := Some 3\<rparr>)) ''docs/intro.md'' = 5"
    by (simp add: recordedVersion_def setPageState_def)
  note t = sync_state_versions [OF d, THEN conjunct1,
      of "''docs/intro.md''" "exPageInfo\<lparr>pi_version := Some 3\<rparr>"]
  from t d v show ?thesis
    by simp
qed

section \<open>Properties of the reference index\<close>

lemma token_parts: "linkToken = tokenPath linkToken @ tokenAnchor linkToken"
  by (simp add: tokenPath_def tokenAnchor_def)

lemma targetOf_Some:
  "targetOf info = Some target \<Longrightarrow>
     truthy (confluenceId info) \<and> the (confluenceId info) = fst target \<and> pi_title info = snd target"
  by (auto simp: targetOf_def split: if_splits)

lemma lookupTarget_in_index:
  "lookupTarget index path = Some target \<Longrightarrow>
     \<exists>p info. (p, info) \<in> set index \<and> targetOf info = Some target"
  by (auto simp: lookupTarget_def split: option.splits dest!: map_of_SomeD)

lemma find_in_set: "List.find P xs = Some x \<Longrightarrow> x \<in> set xs"
  by (induction xs) (auto split: if_splits)

lemma fuzzyTarget_in_index:
  assumes "fuzzyTarget index path = Some target"
  shows "\<exists>p info. (p, info) \<in> set index \<and> targetOf info = Some target"
proof -
  from assms obtain p info where
    f: "List.find (\<lambda>(p, info). stem p = stem path \<and> targetOf info \<noteq> None) index = Some (p, info)"
    and t: "targetOf info = Some target"
    by (auto simp: fuzzyTarget_def split: option.splits prod.splits)
  from find_in_set [OF f] t show ?thesis
    by blast
qed

text \<open>
  C1. Whenever a link token resolves, the URL is the base URL, \<open>/wiki/spaces/\<close>, the space
  key, \<open>/pages/\<close>, the page identifier of a record of the index, \<open>/\<close>, the encoded title of
  that record and then the anchor of the token: the token is its path followed by that
  anchor, which is empty or starts at the first \<open>#\<close> of the token, so the anchor is carried
  over verbatim.
\<close>

theorem resolve_url_shape:
  assumes "resolve cfg index linkToken sourceDocumentPath = Some url"
  shows "\<exists>path info.
           (path, info) \<in> set index \<and> truthy (confluenceId info) \<and>
           url = lc_baseUrl cfg @ ''/wiki/spaces/'' @ lc_spaceKey cfg @ ''/pages/'' @
                 the (confluenceId info) @ ''/'' @ lc_encodeTitle cfg (pi_title info) @
                 tokenAnchor linkToken \<and>
           linkToken = tokenPath linkToken @ tokenAnchor linkToken \<and>
           CHR ''#'' \<notin> set (tokenPath linkToken) \<and>
           (tokenAnchor linkToken = [] \<or> hd (tokenAnchor linkToken) = CHR ''#'')"
proof -
  from assms obtain target where t: "lookupTarget index (canonicalPath cfg (tokenPath linkToken) sourceDocumentPath) = Some target
      \<or> fuzzyTarget index (canonicalPath cfg (tokenPath linkToken) sourceDocumentPath) = Some target"
    and u: "url = pageUrl cfg target (tokenAnchor linkToken)"
    by (auto simp: resolve_def Let_def split: option.splits)
  from t obtain p info where i: "(p, info) \<in> set index" "targetOf info = Some target"
    using lookupTarget_in_index fuzzyTarget_in_index by blast
  from targetOf_Some [OF i(2)] have tr: "truthy (confluenceId info)"
    and tg: "the (confluenceId info) = fst target" "pi_title info = snd target"
    by simp_all
  have h: "tokenAnchor linkToken = [] \<or> hd (tokenAnchor linkToken) = CHR ''#''"
    using hd_dropWhile [of "\<lambda>c. c \<noteq> CHR ''#''" linkToken]
    by (auto simp: tokenAnchor_def)
  have n: "CHR ''#'' \<notin> set (tokenPath linkToken)"
    by (auto simp: tokenPath_def dest: set_takeWhileD)
  have shape: "url = lc_baseUrl cfg @ ''/wiki/spaces/'' @ lc_spaceKey cfg @ ''/pages/'' @
      the (confluenceId info) @ ''/'' @ lc_encodeTitle cfg (pi_title info) @ tokenAnchor linkToken"
    using u tg by (simp add: pageUrl_def)
  from i(1) tr shape h n token_parts [of linkToken] show ?thesis
    by blast
qed

theorem resolve_url_shape_witness:
  "resolve exLinkConfig exIndex ''./guides/setup.md#install'' ''docs/intro.md'' =
     Some ''https://wiki.example/wiki/spaces/DOC/pages/202/Set+Up#install'' \<and>
   tokenAnchor ''./guides/setup.md#install'' = ''#install'' \<and>
   (\<exists>path info.
      (path, info) \<in> set exIndex \<and>
      ''https://wiki.example/wiki/spaces/DOC/pages/202/Set+Up#install'' =
        lc_baseUrl exLinkConfig @ ''/wiki/spaces/'' @ lc_spaceKey exLinkConfig @ ''/pages/'' @
        the (confluenceId info) @ ''/'' @ lc_encodeTitle exLinkConfig (pi_title info) @ ''#install'')"
proof -
  have r: "resolve exLinkConfig exIndex ''./guides/setup.md#install'' ''docs/intro.md'' =
     Some ''https://wiki.example/wiki/spaces/DOC/pages/202/Set+Up#install''"
    by code_simp
  have a: "tokenAnchor ''./guides/setup.md#install'' = ''#install''"
    by (simp add: tokenAnchor_def)
  from resolve_url_shape [OF r] r a show ?thesis
    by auto
qed

end
